theory Spec2Isabelle
  imports Main
begin

section \<open>Constants and error values\<close>

text \<open>
  \<^verbatim>\<open>utils.zig\<close>: \<^verbatim>\<open>pub const PATH_MAX = 4096\<close>. The Zig error names that the
  modelled functions return are the constructors of \<open>error\<close>. \<open>ReadError\<close> is the error
  of a failing read-only system call, and \<open>OsError n\<close> the error \<open>n\<close> of a system call
  that changes the system.
\<close>

definition PATH_MAX :: nat where
  "PATH_MAX = 4096"

datatype error = NameTooLong | InvalidArgument | DirectoryCreationFailed | Unexpected
  | ReadError | OsError nat

section \<open>Path helpers (\<^verbatim>\<open>utils.zig\<close>)\<close>

text \<open>
  The C tree builder calls \<^verbatim>\<open>path_join\<close>, \<^verbatim>\<open>path_exists\<close>, \<^verbatim>\<open>path_is_dir\<close>,
  \<^verbatim>\<open>path_is_symlink\<close> and \<^verbatim>\<open>str_trim\<close> of its utilities; the definitions of these
  helpers in the sources are those of \<^verbatim>\<open>utils.zig\<close>, which the model follows for the
  builder and the applier alike. A context pointer is never \<^verbatim>\<open>NULL\<close>, and an
  allocation never fails.

  \<^verbatim>\<open>path_join(allocator, buf, base, name)\<close>. The buffer holds the result and its
  terminating zero; the returned slice is the model's string.
\<close>

definition path_join :: "string \<Rightarrow> string \<Rightarrow> error + string" where
  "path_join base name =
     (if length name = 0 then
        (if length base \<ge> PATH_MAX then Inl NameTooLong else Inr base)
      else
        (let use_slash =
               (if length base = 0 \<or> (length base = 1 \<and> base ! 0 = CHR ''/'') then True
                else base ! (length base - 1) \<noteq> CHR ''/'');
             needed = length base + (if use_slash then 1 else 0) + length name + 1
         in if needed > PATH_MAX then Inl NameTooLong
            else Inr (base @ (if use_slash then ''/'' else []) @ name)))"

text \<open>\<^verbatim>\<open>std.ascii.isWhitespace\<close>: space, tab, line feed, carriage return, VT, FF.\<close>

definition isWhitespace :: "char \<Rightarrow> bool" where
  "isWhitespace c = (c = CHR '' '' \<or> c = CHR 0x09 \<or> c = CHR 0x0A \<or> c = CHR 0x0D
                     \<or> c = CHR 0x0B \<or> c = CHR 0x0C)"

text \<open>
  \<^verbatim>\<open>str_trim\<close>: \<open>start\<close> runs forward over whitespace, \<open>end\<close> runs backward
  over whitespace down to \<open>start\<close>; the result is the slice between them.
\<close>

fun trim_start :: "string \<Rightarrow> nat \<Rightarrow> nat" where
  "trim_start [] start = start"
| "trim_start (c # cs) start = (if isWhitespace c then trim_start cs (Suc start) else start)"

fun trim_end :: "string \<Rightarrow> nat \<Rightarrow> nat \<Rightarrow> nat" where
  "trim_end str start 0 = 0"
| "trim_end str start (Suc e) =
     (if Suc e > start \<and> isWhitespace (str ! e) then trim_end str start e else Suc e)"

definition str_trim :: "string \<Rightarrow> string" where
  "str_trim str =
     (let start = trim_start str 0 in
      if start = length str then []
      else let e = trim_end str start (length str)
           in take (e - start) (drop start str))"

section \<open>The context and the overlay tree (\<^verbatim>\<open>magic_mount.h\<close>, \<^verbatim>\<open>module_tree.zig\<close>)\<close>

text \<open>
  \<^verbatim>\<open>MountStats\<close> and \<^verbatim>\<open>MagicMount\<close>. The counters are C \<^verbatim>\<open>int\<close>s that only
  ever count nodes of one run; they are modelled as unbounded integers. The two string
  arrays with their counts are lists. A \<^verbatim>\<open>NULL\<close> \<^verbatim>\<open>module_dir\<close> is \<open>None\<close>.
\<close>

record MountStats =
  modules_total :: int
  nodes_total :: int
  nodes_mounted :: int
  nodes_skipped :: int
  nodes_whiteout :: int
  nodes_fail :: int

record MagicMount =
  module_dir :: "string option"
  mount_source :: "string option"
  stats :: MountStats
  failed_modules :: "string list"
  extra_parts :: "string list"
  enable_unmountable :: bool

definition DEFAULT_MODULE_DIR :: string where
  "DEFAULT_MODULE_DIR = ''/data/adb/modules''"

definition DEFAULT_MOUNT_SOURCE :: string where
  "DEFAULT_MOUNT_SOURCE = ''KSU''"

definition DISABLE_FILE_NAME :: string where
  "DISABLE_FILE_NAME = ''disable''"

definition REMOVE_FILE_NAME :: string where
  "REMOVE_FILE_NAME = ''remove''"

definition SKIP_MOUNT_FILE_NAME :: string where
  "SKIP_MOUNT_FILE_NAME = ''skip_mount''"

definition REPLACE_DIR_XATTR :: string where
  "REPLACE_DIR_XATTR = ''trusted.overlay.opaque''"

definition REPLACE_DIR_FILE_NAME :: string where
  "REPLACE_DIR_FILE_NAME = ''.replace''"

text \<open>\<^verbatim>\<open>magic_mount_init\<close>: everything zero, then the three defaults.\<close>

definition magic_mount_init :: MagicMount where
  "magic_mount_init =
     \<lparr> module_dir = Some DEFAULT_MODULE_DIR, mount_source = Some DEFAULT_MOUNT_SOURCE,
       stats = \<lparr> modules_total = 0, nodes_total = 0, nodes_mounted = 0, nodes_skipped = 0,
                 nodes_whiteout = 0, nodes_fail = 0 \<rparr>,
       failed_modules = [], extra_parts = [], enable_unmountable = True \<rparr>"

datatype NodeFileType = NFT_REGULAR | NFT_DIRECTORY | NFT_SYMLINK | NFT_WHITEOUT

text \<open>
  \<^verbatim>\<open>struct Node\<close>: the children array with its count is a list, the two optional
  strings are options, \<^verbatim>\<open>skip\<close> and \<^verbatim>\<open>done\<close> are the transient flags of the applier.
\<close>

datatype Node = Node (n_name: string) (n_type: NodeFileType) (n_children: "Node list")
  (n_module_path: "string option") (n_module_name: "string option")
  (n_replace: bool) (n_skip: bool) (n_done: bool)

text \<open>\<^verbatim>\<open>node_new\<close>: \<^verbatim>\<open>calloc\<close> leaves every other field zero.\<close>

definition node_new :: "string \<Rightarrow> NodeFileType \<Rightarrow> Node" where
  "node_new name t = Node name t [] None None False False False"

section \<open>The operating system as the code sees it\<close>

text \<open>
  What \<^verbatim>\<open>lstat\<close>/\<^verbatim>\<open>stat\<close> report that the code reads: the file type bits of
  \<^verbatim>\<open>st_mode\<close> and \<^verbatim>\<open>st_rdev\<close>.
\<close>

datatype file_kind = S_IFREG | S_IFDIR | S_IFLNK | S_IFCHR | S_IFBLK | S_IFIFO | S_IFSOCK

record stat =
  st_kind :: file_kind
  st_rdev :: nat

text \<open>
  The read-only system calls are parameters of the model: \<open>None\<close> is a failing call.
  \<open>fs_readdir\<close> is \<^verbatim>\<open>opendir\<close> followed by the full \<^verbatim>\<open>readdir\<close> sequence of the
  C code, whose loop ends alike at the end of the directory and at an error.
  \<open>fs_iterate\<close> is \<^verbatim>\<open>openDir\<close> followed by the \<^verbatim>\<open>iter.next()\<close> sequence of the Zig
  code: \<open>None\<close> when the directory cannot be opened, else the names the iterator yields
  and whether the call after the last of them fails instead of ending the iteration.
  \<open>fs_lgetxattr path name\<close> is the whole value of the attribute, and
  \<open>fs_faccessat dir name\<close> is \<^verbatim>\<open>faccessat(dirfd, name, F_OK, 0) == 0\<close>.
\<close>

record fsys =
  fs_lstat :: "string \<Rightarrow> stat option"
  fs_stat :: "string \<Rightarrow> stat option"
  fs_readdir :: "string \<Rightarrow> string list option"
  fs_iterate :: "string \<Rightarrow> (string list \<times> bool) option"
  fs_readlink :: "string \<Rightarrow> string option"
  fs_lgetxattr :: "string \<Rightarrow> string \<Rightarrow> string option"
  fs_faccessat :: "string \<Rightarrow> string \<Rightarrow> bool"

text \<open>\<^verbatim>\<open>utils.zig\<close>: \<^verbatim>\<open>path_exists\<close>, \<^verbatim>\<open>path_is_dir\<close> (both \<^verbatim>\<open>stat\<close>) and
  \<^verbatim>\<open>path_is_symlink\<close> (\<^verbatim>\<open>lstat\<close>).\<close>

definition path_exists :: "fsys \<Rightarrow> string \<Rightarrow> bool" where
  "path_exists fs path = (case fs_stat fs path of None \<Rightarrow> False | Some st \<Rightarrow> True)"

definition path_is_dir :: "fsys \<Rightarrow> string \<Rightarrow> bool" where
  "path_is_dir fs path = (case fs_stat fs path of None \<Rightarrow> False | Some st \<Rightarrow> st_kind st = S_IFDIR)"

definition path_is_symlink :: "fsys \<Rightarrow> string \<Rightarrow> bool" where
  "path_is_symlink fs path =
     (case fs_lstat fs path of None \<Rightarrow> False | Some st \<Rightarrow> st_kind st = S_IFLNK)"

section \<open>Node management (\<^verbatim>\<open>module_tree.c\<close>)\<close>

definition node_type_from_stat :: "stat \<Rightarrow> NodeFileType" where
  "node_type_from_stat st =
     (if st_kind st = S_IFCHR \<and> st_rdev st = 0 then NFT_WHITEOUT
      else if st_kind st = S_IFREG then NFT_REGULAR
      else if st_kind st = S_IFDIR then NFT_DIRECTORY
      else if st_kind st = S_IFLNK then NFT_SYMLINK
      else NFT_WHITEOUT)"

text \<open>
  \<^verbatim>\<open>dir_is_replace\<close>: \<^verbatim>\<open>lgetxattr\<close> with a buffer of 7 bytes fails on a longer value;
  \<^verbatim>\<open>strcmp\<close> reads the value up to its first zero byte. Otherwise the sentinel file is
  looked up through a descriptor of the directory.
\<close>

definition dir_is_replace :: "fsys \<Rightarrow> string \<Rightarrow> bool" where
  "dir_is_replace fs path =
     (let by_xattr =
            (case fs_lgetxattr fs path REPLACE_DIR_XATTR of
               None \<Rightarrow> False
             | Some v \<Rightarrow> 0 < length v \<and> length v \<le> 7
                          \<and> takeWhile (\<lambda>c. c \<noteq> CHR 0x00) v = ''y'')
      in if by_xattr then True
         else (case fs_readdir fs path of
                 None \<Rightarrow> False
               | Some es \<Rightarrow> fs_faccessat fs path REPLACE_DIR_FILE_NAME))"

text \<open>\<^verbatim>\<open>node_create_from_fs\<close>: \<open>None\<close> is the \<^verbatim>\<open>NULL\<close> return.\<close>

definition node_create_from_fs ::
  "fsys \<Rightarrow> MagicMount \<Rightarrow> string \<Rightarrow> string \<Rightarrow> string option \<Rightarrow> Node option \<times> MagicMount" where
  "node_create_from_fs fs ctx name path module_name =
     (case fs_lstat fs path of
        None \<Rightarrow> (None, ctx)
      | Some st \<Rightarrow>
          if \<not> (st_kind st = S_IFCHR \<or> st_kind st = S_IFREG
                 \<or> st_kind st = S_IFDIR \<or> st_kind st = S_IFLNK)
          then (None, ctx)
          else
            (let t = node_type_from_stat st;
                 n = Node name t [] (Some path) module_name
                       (t = NFT_DIRECTORY \<and> dir_is_replace fs path) False False
             in (Some n, ctx\<lparr>stats := (stats ctx)\<lparr>nodes_total := nodes_total (stats ctx) + 1\<rparr>\<rparr>)))"

definition node_child_append :: "Node \<Rightarrow> Node \<Rightarrow> Node" where
  "node_child_append parent child =
     Node (n_name parent) (n_type parent) (n_children parent @ [child])
       (n_module_path parent) (n_module_name parent)
       (n_replace parent) (n_skip parent) (n_done parent)"

definition node_child_find :: "Node \<Rightarrow> string \<Rightarrow> Node option" where
  "node_child_find parent name = find (\<lambda>c. n_name c = name) (n_children parent)"

text \<open>\<^verbatim>\<open>node_child_detach\<close>: the first child of that name leaves the array, the
  later ones move down; the result is the detached node and the parent.\<close>

fun detach_first :: "string \<Rightarrow> Node list \<Rightarrow> Node option \<times> Node list" where
  "detach_first name [] = (None, [])"
| "detach_first name (c # cs) =
     (if n_name c = name then (Some c, cs)
      else (case detach_first name cs of (r, cs') \<Rightarrow> (r, c # cs')))"

definition node_child_detach :: "Node \<Rightarrow> string \<Rightarrow> Node option \<times> Node" where
  "node_child_detach parent name =
     (case detach_first name (n_children parent) of
        (r, cs') \<Rightarrow>
          (r, Node (n_name parent) (n_type parent) cs'
                (n_module_path parent) (n_module_name parent)
                (n_replace parent) (n_skip parent) (n_done parent)))"

text \<open>
  The scan works on a child through its pointer while the child sits in its parent's
  array. In the model the scanned child is written back over the first child of its name,
  which is the node \<^verbatim>\<open>node_child_find\<close> returned.
\<close>

fun replace_first :: "string \<Rightarrow> Node \<Rightarrow> Node list \<Rightarrow> Node list" where
  "replace_first name n [] = []"
| "replace_first name n (c # cs) =
     (if n_name c = name then n # cs else c # replace_first name n cs)"

definition node_child_store :: "Node \<Rightarrow> string \<Rightarrow> Node \<Rightarrow> Node" where
  "node_child_store parent name child =
     Node (n_name parent) (n_type parent) (replace_first name child (n_children parent))
       (n_module_path parent) (n_module_name parent)
       (n_replace parent) (n_skip parent) (n_done parent)"

text \<open>
  Modelled from the spec: \<^verbatim>\<open>str_array_append\<close> of the C utilities, which the sources
  only call. Both callers test its result for an allocation failure alone,
  \<^verbatim>\<open>module_mark_failed\<close> looks for a duplicate itself before it calls, and the Zig
  port of both callers uses a plain \<^verbatim>\<open>append\<close>: the model appends the string.
\<close>

definition str_array_append :: "string list \<Rightarrow> string \<Rightarrow> string list" where
  "str_array_append arr s = arr @ [s]"

definition module_mark_failed :: "MagicMount \<Rightarrow> string \<Rightarrow> MagicMount" where
  "module_mark_failed ctx module_name =
     (if module_name \<in> set (failed_modules ctx) then ctx
      else ctx\<lparr>failed_modules := str_array_append (failed_modules ctx) module_name\<rparr>)"

section \<open>Extra partitions (\<^verbatim>\<open>module_tree.c\<close>)\<close>

text \<open>
  \<^verbatim>\<open>extra_part_blacklisted\<close>: every leading slash is passed over, then at most 15
  bytes of the first segment are copied into \<^verbatim>\<open>buf[16]\<close> and compared with
  \<^verbatim>\<open>strcmp\<close>.
\<close>

definition blacklist :: "string list" where
  "blacklist = [''bin'', ''etc'', ''data'', ''data_mirror'', ''sdcard'',
                ''tmp'', ''dev'', ''sys'', ''mnt'', ''proc'', ''d'', ''test'',
                ''product'', ''vendor'', ''system_ext'', ''odm'']"

fun skip_slashes :: "string \<Rightarrow> string" where
  "skip_slashes [] = []"
| "skip_slashes (c # cs) = (if c = CHR ''/'' then skip_slashes cs else c # cs)"

fun copy_segment :: "string \<Rightarrow> nat \<Rightarrow> string" where
  "copy_segment [] i = []"
| "copy_segment (c # cs) i =
     (if c \<noteq> CHR ''/'' \<and> i + 1 < 16 then c # copy_segment cs (i + 1) else [])"

definition extra_part_blacklisted :: "string \<Rightarrow> bool" where
  "extra_part_blacklisted name =
     (if name = [] then False
      else (let buf = copy_segment (skip_slashes name) 0 in buf \<in> set blacklist))"

text \<open>
  The log lines a function writes are part of its result where a claim speaks of them:
  the level and the format string of the call.
\<close>

datatype LogLevel = LOG_DEBUG | LOG_INFO | LOG_WARN | LOG_ERROR

type_synonym log_line = "LogLevel \<times> string"

text \<open>
  \<^verbatim>\<open>extra_partition_register(ctx, start, len)\<close>: the first \<open>len\<close> bytes of \<open>start\<close>
  are copied and trimmed. The result is the context and the lines logged at warning
  level or above; the debug and info lines are left out.
\<close>

definition extra_partition_register ::
  "MagicMount \<Rightarrow> string \<Rightarrow> nat \<Rightarrow> MagicMount \<times> log_line list" where
  "extra_partition_register ctx start len =
     (if len = 0 then
        (ctx, [(LOG_WARN, ''extra_partition_register: invalid input (start=%p, len=%zu)'')])
      else
        (let buf = str_trim (take len start) in
         if buf = [] then
           (ctx, [(LOG_WARN, ''extra_partition_register: rejected empty string after trim'')])
         else if extra_part_blacklisted buf then
           (ctx, [(LOG_WARN, ''extra_partition_register: rejected '%s' (blacklisted)'')])
         else
           (ctx\<lparr>extra_parts := str_array_append (extra_parts ctx) buf\<rparr>, [])))"

section \<open>Scanning the modules (\<^verbatim>\<open>module_tree.c\<close>)\<close>

definition module_is_disabled :: "fsys \<Rightarrow> string \<Rightarrow> bool" where
  "module_is_disabled fs mod_dir =
     list_ex (\<lambda>f. case path_join mod_dir f of Inl e \<Rightarrow> False | Inr buf \<Rightarrow> path_exists fs buf)
       [DISABLE_FILE_NAME, REMOVE_FILE_NAME, SKIP_MOUNT_FILE_NAME]"

lemma path_join_longer:
  "path_join base name = Inr p \<Longrightarrow> name \<noteq> [] \<Longrightarrow> length base < length p \<and> length p < PATH_MAX"
  by (auto simp: path_join_def Let_def split: if_splits)

text \<open>
  \<^verbatim>\<open>node_scan_dir\<close>, with its \<^verbatim>\<open>readdir\<close> loop as \<open>node_scan_entries\<close>. \<open>None\<close> is
  the return value \<open>-1\<close>; on success the result is the scanned node and what the call
  stored in \<^verbatim>\<open>*has_any\<close>. The context is returned in both cases, since the nodes
  counted before a failure stay counted. \<^verbatim>\<open>readdir\<close> never yields an empty name; the
  loop passes over one like over the dot entries, so that every recursive call is on a
  longer path, bounded by \<open>PATH_MAX\<close>.
\<close>

function node_scan_dir ::
    "fsys \<Rightarrow> MagicMount \<Rightarrow> Node \<Rightarrow> string \<Rightarrow> string option \<Rightarrow> (Node \<times> bool) option \<times> MagicMount"
  and node_scan_entries ::
    "fsys \<Rightarrow> MagicMount \<Rightarrow> Node \<Rightarrow> string \<Rightarrow> string option \<Rightarrow> bool \<Rightarrow> string list
      \<Rightarrow> (Node \<times> bool) option \<times> MagicMount"
where
  "node_scan_dir fs ctx self dir module_name =
     (case fs_readdir fs dir of
        None \<Rightarrow> (None, ctx)
      | Some es \<Rightarrow> node_scan_entries fs ctx self dir module_name False es)"
| "node_scan_entries fs ctx self dir module_name any [] = (Some (self, any), ctx)"
| "node_scan_entries fs ctx self dir module_name any (d_name # es) =
     (if d_name = ''.'' \<or> d_name = ''..'' \<or> d_name = [] then
        node_scan_entries fs ctx self dir module_name any es
      else
        (case path_join dir d_name of
           Inl e \<Rightarrow> (None, ctx)
         | Inr path \<Rightarrow>
             (case (case node_child_find self d_name of
                      Some c \<Rightarrow> (Some c, self, ctx)
                    | None \<Rightarrow>
                        (case node_create_from_fs fs ctx d_name path module_name of
                           (Some n, ctx1) \<Rightarrow> (Some n, node_child_append self n, ctx1)
                         | (None, ctx1) \<Rightarrow> (None, self, ctx1))) of
                (None, self1, ctx1) \<Rightarrow> node_scan_entries fs ctx1 self1 dir module_name any es
              | (Some child, self1, ctx1) \<Rightarrow>
                  if n_type child = NFT_DIRECTORY then
                    (case node_scan_dir fs ctx1 child path module_name of
                       (None, ctx2) \<Rightarrow> (None, ctx2)
                     | (Some (child2, sub), ctx2) \<Rightarrow>
                         node_scan_entries fs ctx2 (node_child_store self1 d_name child2) dir
                           module_name (any \<or> sub \<or> n_replace child2) es)
                  else node_scan_entries fs ctx1 self1 dir module_name True es)))"
  by pat_completeness auto
termination
  by (relation "inv_image (less_than <*lex*> less_than <*lex*> less_than)
        (\<lambda>x. case x of
           Inl (fs, ctx, self, dir, mn) \<Rightarrow> (PATH_MAX - length dir, 1::nat, 0::nat)
         | Inr (fs, ctx, self, dir, mn, any, es) \<Rightarrow> (PATH_MAX - length dir, 0, length es))")
     (auto dest: path_join_longer)

section \<open>Symlink compatibility (\<^verbatim>\<open>module_tree.c\<close>)\<close>

text \<open>
  C strings without an inner zero byte are lists of characters. \<open>strncmp_eq a b n\<close> is
  \<^verbatim>\<open>strncmp(a, b, n) == 0\<close>, and \<open>nul_at s n\<close> is \<^verbatim>\<open>s[n] == '\0'\<close> for an index
  up to the length of \<open>s\<close> (the code reads it only after the comparison of the first
  \<open>n\<close> bytes succeeded, which keeps \<open>n\<close> in that range).
\<close>

definition strncmp_eq :: "string \<Rightarrow> string \<Rightarrow> nat \<Rightarrow> bool" where
  "strncmp_eq a b n = (take n a = take n b)"

definition nul_at :: "string \<Rightarrow> nat \<Rightarrow> bool" where
  "nul_at s n = (n = length s)"

text \<open>The loop that steps \<open>target_len\<close> back over trailing slashes.\<close>

fun target_len_of :: "string \<Rightarrow> nat \<Rightarrow> nat" where
  "target_len_of link_target 0 = 0"
| "target_len_of link_target (Suc n) =
     (if link_target ! n = CHR ''/'' then target_len_of link_target n else Suc n)"

text \<open>\<^verbatim>\<open>snprintf\<close> into a buffer of \<open>PATH_MAX\<close> bytes keeps \<open>PATH_MAX - 1\<close> of them.\<close>

definition is_compatible_symlink ::
  "string \<Rightarrow> string \<Rightarrow> MagicMount \<Rightarrow> string option \<Rightarrow> bool" where
  "is_compatible_symlink link_target part_name ctx module_name =
     (let target_len = target_len_of link_target (length link_target) in
      if target_len = 0 then False
      else
        (let expected_relative = take (PATH_MAX - 1) (''../'' @ part_name) in
         if strncmp_eq link_target expected_relative target_len
            \<and> nul_at expected_relative target_len
         then True
         else
           (case module_dir ctx of
              None \<Rightarrow> False
            | Some md \<Rightarrow>
                (case module_name of
                   None \<Rightarrow> False
                 | Some mn \<Rightarrow>
                     (case path_join md mn of
                        Inl e \<Rightarrow> False
                      | Inr tmp \<Rightarrow>
                          (case path_join tmp part_name of
                             Inl e \<Rightarrow> False
                           | Inr expected_absolute \<Rightarrow>
                               strncmp_eq link_target expected_absolute target_len
                               \<and> nul_at expected_absolute target_len))))))"

text \<open>
  \<^verbatim>\<open>find_real_partition_dir\<close>: the first enabled module with a directory of that
  name. Both results are copied with \<^verbatim>\<open>strncpy\<close> under the size of the module name
  buffer of the caller, 256 bytes.
\<close>

fun find_real_partition_loop ::
  "fsys \<Rightarrow> string \<Rightarrow> string \<Rightarrow> string list \<Rightarrow> (string \<times> string) option" where
  "find_real_partition_loop fs mdir part_name [] = None"
| "find_real_partition_loop fs mdir part_name (d_name # es) =
     (if d_name = ''.'' \<or> d_name = ''..'' then find_real_partition_loop fs mdir part_name es
      else
        (case path_join mdir d_name of
           Inl e \<Rightarrow> find_real_partition_loop fs mdir part_name es
         | Inr mod_path \<Rightarrow>
             if \<not> path_is_dir fs mod_path then find_real_partition_loop fs mdir part_name es
             else if module_is_disabled fs mod_path then
               find_real_partition_loop fs mdir part_name es
             else
               (case path_join mod_path part_name of
                  Inl e \<Rightarrow> find_real_partition_loop fs mdir part_name es
                | Inr part_path \<Rightarrow>
                    if path_is_dir fs part_path then Some (take 255 part_path, take 255 d_name)
                    else find_real_partition_loop fs mdir part_name es)))"

definition find_real_partition_dir ::
  "fsys \<Rightarrow> MagicMount \<Rightarrow> string \<Rightarrow> (string \<times> string) option" where
  "find_real_partition_dir fs ctx part_name =
     (case module_dir ctx of
        None \<Rightarrow> None
      | Some mdir \<Rightarrow>
          (case fs_readdir fs mdir of
             None \<Rightarrow> None
           | Some es \<Rightarrow> find_real_partition_loop fs mdir part_name es))"

definition set_module_name :: "Node \<Rightarrow> string option \<Rightarrow> Node" where
  "set_module_name n mn =
     Node (n_name n) (n_type n) (n_children n) (n_module_path n) mn
       (n_replace n) (n_skip n) (n_done n)"

text \<open>
  \<^verbatim>\<open>symlink_resolve_partition\<close>: the result is the return code, the \<open>system\<close> node
  and the context. \<^verbatim>\<open>readlink\<close> fills at most \<open>PATH_MAX - 1\<close> bytes.
\<close>

definition symlink_resolve_partition ::
  "fsys \<Rightarrow> MagicMount \<Rightarrow> Node \<Rightarrow> string \<Rightarrow> int \<times> Node \<times> MagicMount" where
  "symlink_resolve_partition fs ctx system part_name =
     (case node_child_find system part_name of
        None \<Rightarrow> (0, system, ctx)
      | Some sys_child \<Rightarrow>
          if n_type sys_child \<noteq> NFT_SYMLINK then (0, system, ctx)
          else
            (case n_module_path sys_child of
               None \<Rightarrow> (0, system, ctx)
             | Some mp \<Rightarrow>
                 (case fs_readlink fs mp of
                    None \<Rightarrow> (0, system, ctx)
                  | Some t \<Rightarrow>
                      (let link_target = take (PATH_MAX - 1) t in
                       if \<not> is_compatible_symlink link_target part_name ctx
                               (n_module_name sys_child)
                       then (0, system, ctx)
                       else
                         (case find_real_partition_dir fs ctx part_name of
                            None \<Rightarrow> (0, system, ctx)
                          | Some (real_part_path, module_name_buf) \<Rightarrow>
                              (case node_scan_dir fs ctx (node_new part_name NFT_DIRECTORY)
                                      real_part_path (Some module_name_buf) of
                                 (None, ctx1) \<Rightarrow> (- 1, system, ctx1)
                               | (Some (new_part, part_has_any), ctx1) \<Rightarrow>
                                   if \<not> part_has_any then (0, system, ctx1)
                                   else
                                     (case node_child_detach system part_name of
                                        (removed, system1) \<Rightarrow>
                                          (0,
                                           node_child_append system1
                                             (set_module_name new_part (Some module_name_buf)),
                                           ctx1))))))))"

definition builtin_part_names :: "string list" where
  "builtin_part_names = [''vendor'', ''system_ext'', ''product'', ''odm'']"

text \<open>\<^verbatim>\<open>symlink_resolve_all_partition_links\<close>: a failing partition is logged and the
  loop goes on; the function itself returns 0.\<close>

fun symlink_resolve_list ::
  "fsys \<Rightarrow> MagicMount \<Rightarrow> Node \<Rightarrow> string list \<Rightarrow> Node \<times> MagicMount" where
  "symlink_resolve_list fs ctx system [] = (system, ctx)"
| "symlink_resolve_list fs ctx system (p # ps) =
     (case symlink_resolve_partition fs ctx system p of
        (rc, system1, ctx1) \<Rightarrow> symlink_resolve_list fs ctx1 system1 ps)"

definition symlink_resolve_all_partition_links ::
  "fsys \<Rightarrow> MagicMount \<Rightarrow> Node \<Rightarrow> Node \<times> MagicMount" where
  "symlink_resolve_all_partition_links fs ctx system =
     (case symlink_resolve_list fs ctx system builtin_part_names of
        (system1, ctx1) \<Rightarrow> symlink_resolve_list fs ctx1 system1 (extra_parts ctx1))"

section \<open>Building the tree (\<^verbatim>\<open>module_tree.c\<close>)\<close>

text \<open>
  \<^verbatim>\<open>partition_scan_from_modules\<close>: the return code is 0 with content, 1 without and
  \<open>-1\<close> on failure; the node is the scanned \<open>parent_node\<close>.
\<close>

fun partition_scan_loop ::
  "fsys \<Rightarrow> MagicMount \<Rightarrow> string \<Rightarrow> string \<Rightarrow> Node \<Rightarrow> bool \<Rightarrow> string list
    \<Rightarrow> int \<times> Node \<times> MagicMount" where
  "partition_scan_loop fs ctx mdir part_name parent_node has_any [] =
     ((if has_any then 0 else 1), parent_node, ctx)"
| "partition_scan_loop fs ctx mdir part_name parent_node has_any (d_name # es) =
     (if d_name = ''.'' \<or> d_name = ''..'' then
        partition_scan_loop fs ctx mdir part_name parent_node has_any es
      else
        (case path_join mdir d_name of
           Inl e \<Rightarrow> partition_scan_loop fs ctx mdir part_name parent_node has_any es
         | Inr mod_path \<Rightarrow>
             if \<not> path_is_dir fs mod_path then
               partition_scan_loop fs ctx mdir part_name parent_node has_any es
             else if module_is_disabled fs mod_path then
               partition_scan_loop fs ctx mdir part_name parent_node has_any es
             else
               (case path_join mod_path part_name of
                  Inl e \<Rightarrow> partition_scan_loop fs ctx mdir part_name parent_node has_any es
                | Inr part_path \<Rightarrow>
                    if \<not> path_is_dir fs part_path then
                      partition_scan_loop fs ctx mdir part_name parent_node has_any es
                    else
                      (case node_scan_dir fs ctx parent_node part_path (Some d_name) of
                         (None, ctx1) \<Rightarrow> (- 1, parent_node, ctx1)
                       | (Some (parent1, sub), ctx1) \<Rightarrow>
                           partition_scan_loop fs ctx1 mdir part_name parent1
                             (has_any \<or> sub) es))))"

definition partition_scan_from_modules ::
  "fsys \<Rightarrow> MagicMount \<Rightarrow> string \<Rightarrow> Node \<Rightarrow> int \<times> Node \<times> MagicMount" where
  "partition_scan_from_modules fs ctx part_name parent_node =
     (case module_dir ctx of
        None \<Rightarrow> (- 1, parent_node, ctx)
      | Some mdir \<Rightarrow>
          (case fs_readdir fs mdir of
             None \<Rightarrow> (- 1, parent_node, ctx)
           | Some es \<Rightarrow> partition_scan_loop fs ctx mdir part_name parent_node False es))"

text \<open>\<^verbatim>\<open>partition_promote_to_root\<close>: the return code, \<open>root\<close> and \<open>system\<close>.\<close>

definition partition_promote_to_root ::
  "fsys \<Rightarrow> Node \<Rightarrow> Node \<Rightarrow> string \<Rightarrow> bool \<Rightarrow> int \<times> Node \<times> Node" where
  "partition_promote_to_root fs root system part_name need_symlink =
     (case path_join ''/'' part_name of
        Inl e \<Rightarrow> (- 1, root, system)
      | Inr rp \<Rightarrow>
          (case path_join ''/system'' part_name of
             Inl e \<Rightarrow> (- 1, root, system)
           | Inr sp \<Rightarrow>
               if \<not> path_is_dir fs rp then (0, root, system)
               else if need_symlink \<and> \<not> path_is_symlink fs sp then (0, root, system)
               else
                 (case node_child_detach system part_name of
                    (None, system1) \<Rightarrow> (0, root, system1)
                  | (Some child, system1) \<Rightarrow> (0, node_child_append root child, system1))))"

definition builtin_parts :: "(string \<times> bool) list" where
  "builtin_parts = [(''vendor'', True), (''system_ext'', True), (''product'', True),
                    (''odm'', False)]"

text \<open>The three loops of \<^verbatim>\<open>build_mount_tree\<close>; \<open>None\<close> is its \<^verbatim>\<open>return NULL\<close>.\<close>

fun scan_modules ::
  "fsys \<Rightarrow> MagicMount \<Rightarrow> Node \<Rightarrow> string \<Rightarrow> bool \<Rightarrow> string list
    \<Rightarrow> (Node \<times> bool) option \<times> MagicMount" where
  "scan_modules fs ctx system mdir has_any [] = (Some (system, has_any), ctx)"
| "scan_modules fs ctx system mdir has_any (d_name # es) =
     (if d_name = ''.'' \<or> d_name = ''..'' then scan_modules fs ctx system mdir has_any es
      else
        (case path_join mdir d_name of
           Inl e \<Rightarrow> (None, ctx)
         | Inr mod_path \<Rightarrow>
             if \<not> path_is_dir fs mod_path then scan_modules fs ctx system mdir has_any es
             else if module_is_disabled fs mod_path then scan_modules fs ctx system mdir has_any es
             else
               (case path_join mod_path ''system'' of
                  Inl e \<Rightarrow> (None, ctx)
                | Inr mod_sys \<Rightarrow>
                    if \<not> path_is_dir fs mod_sys then
                      scan_modules fs ctx system mdir has_any es
                    else
                      (let ctx1 = ctx\<lparr>stats := (stats ctx)
                                    \<lparr>modules_total := modules_total (stats ctx) + 1\<rparr>\<rparr> in
                       case node_scan_dir fs ctx1 system mod_sys (Some d_name) of
                         (None, ctx2) \<Rightarrow> (None, ctx2)
                       | (Some (system1, sub), ctx2) \<Rightarrow>
                           scan_modules fs ctx2 system1 mdir (has_any \<or> sub) es))))"

fun promote_builtin_parts ::
  "fsys \<Rightarrow> Node \<Rightarrow> Node \<Rightarrow> (string \<times> bool) list \<Rightarrow> (Node \<times> Node) option" where
  "promote_builtin_parts fs root system [] = Some (root, system)"
| "promote_builtin_parts fs root system ((part, need_symlink) # ps) =
     (case partition_promote_to_root fs root system part need_symlink of
        (rc, root1, system1) \<Rightarrow>
          if rc \<noteq> 0 then None else promote_builtin_parts fs root1 system1 ps)"

fun attach_extra_parts ::
  "fsys \<Rightarrow> MagicMount \<Rightarrow> Node \<Rightarrow> string list \<Rightarrow> Node option \<times> MagicMount" where
  "attach_extra_parts fs ctx root [] = (Some root, ctx)"
| "attach_extra_parts fs ctx root (name # names) =
     (case path_join ''/'' name of
        Inl e \<Rightarrow> attach_extra_parts fs ctx root names
      | Inr rp \<Rightarrow>
          if \<not> path_is_dir fs rp then attach_extra_parts fs ctx root names
          else
            (case partition_scan_from_modules fs ctx name (node_new name NFT_DIRECTORY) of
               (ret, child, ctx1) \<Rightarrow>
                 if ret = 0 then attach_extra_parts fs ctx1 (node_child_append root child) names
                 else if ret = 1 then attach_extra_parts fs ctx1 root names
                 else (None, ctx1)))"

definition build_mount_tree :: "fsys \<Rightarrow> MagicMount \<Rightarrow> Node option \<times> MagicMount" where
  "build_mount_tree fs ctx =
     (let mdir = (case module_dir ctx of None \<Rightarrow> DEFAULT_MODULE_DIR | Some d \<Rightarrow> d);
          root = node_new [] NFT_DIRECTORY;
          system = node_new ''system'' NFT_DIRECTORY
      in case fs_readdir fs mdir of
           None \<Rightarrow> (None, ctx)
         | Some des \<Rightarrow>
             (case scan_modules fs ctx system mdir False des of
                (None, ctx1) \<Rightarrow> (None, ctx1)
              | (Some (system1, has_any), ctx1) \<Rightarrow>
                  if \<not> has_any then (None, ctx1)
                  else
                    (let ctx2 = ctx1\<lparr>stats := (stats ctx1)
                                  \<lparr>nodes_total := nodes_total (stats ctx1) + 2\<rparr>\<rparr> in
                     case symlink_resolve_all_partition_links fs ctx2 system1 of
                       (system2, ctx3) \<Rightarrow>
                         (case promote_builtin_parts fs root system2 builtin_parts of
                            None \<Rightarrow> (None, ctx3)
                          | Some (root1, system3) \<Rightarrow>
                              (case attach_extra_parts fs ctx3 root1 (extra_parts ctx3) of
                                 (None, ctx4) \<Rightarrow> (None, ctx4)
                               | (Some root2, ctx4) \<Rightarrow>
                                   (Some (node_child_append root2 system3), ctx4))))))"

section \<open>System calls with an effect\<close>

text \<open>
  Every call of the applier that changes the system, or speaks to the kernel module, is
  an event; the log lines of the SELinux helpers are events too. A state of the applier
  is the context together with the events so far, oldest first.

  A world answers the read-only calls after any sequence of events (\<open>w_fs\<close>) and decides
  whether an effectful call fails, and with which error number (\<open>w_fail\<close>).
\<close>

datatype event =
    Mkdir string
  | Open_create string
  | Mount_bind string string
  | Mount_remount_ro string
  | Mount_move string string
  | Mount_private string
  | Mount_tmpfs "string option" string
  | Symlink string string
  | Chmod string
  | Chown string
  | Lsetxattr string string string
  | Ksu_send_unmountable string
  | Umount2 string
  | Rmdir string
  | Log LogLevel string

record world =
  w_fs :: "event list \<Rightarrow> fsys"
  w_fail :: "event list \<Rightarrow> event \<Rightarrow> nat option"

record mstate =
  ms_ctx :: MagicMount
  ms_trace :: "event list"

definition fs_now :: "world \<Rightarrow> mstate \<Rightarrow> fsys" where
  "fs_now w st = w_fs w (ms_trace st)"

definition emit :: "event \<Rightarrow> mstate \<Rightarrow> mstate" where
  "emit e st = st\<lparr>ms_trace := ms_trace st @ [e]\<rparr>"

text \<open>An effectful call: the attempt is recorded, the world decides its outcome.\<close>

definition sys_call :: "world \<Rightarrow> event \<Rightarrow> mstate \<Rightarrow> (error + unit) \<times> mstate" where
  "sys_call w e st =
     (case w_fail w (ms_trace st) e of
        None \<Rightarrow> (Inr (), emit e st)
      | Some n \<Rightarrow> (Inl (OsError n), emit e st))"

definition EEXIST :: nat where
  "EEXIST = 17"

definition SELINUX_XATTR :: string where
  "SELINUX_XATTR = ''security.selinux''"

section \<open>Directories and SELinux contexts (\<^verbatim>\<open>utils.zig\<close>)\<close>

text \<open>
  \<^verbatim>\<open>mkdir_p\<close>: the loop runs \<open>i\<close> over the indices of \<open>dir\<close>; \<open>PathAlreadyExists\<close>
  is the error number \<open>EEXIST\<close>.
\<close>

definition mkdir_ignoring_exists :: "world \<Rightarrow> string \<Rightarrow> mstate \<Rightarrow> (error + unit) \<times> mstate" where
  "mkdir_ignoring_exists w p st =
     (case sys_call w (Mkdir p) st of
        (Inl err, st1) \<Rightarrow> if err \<noteq> OsError EEXIST then (Inl err, st1) else (Inr (), st1)
      | (Inr u, st1) \<Rightarrow> (Inr (), st1))"

fun mkdir_p_loop :: "world \<Rightarrow> string \<Rightarrow> nat list \<Rightarrow> mstate \<Rightarrow> (error + unit) \<times> mstate" where
  "mkdir_p_loop w dir [] st = (Inr (), st)"
| "mkdir_p_loop w dir (i # is) st =
     (if dir ! i = CHR ''/'' then
        (if i = 0 then mkdir_p_loop w dir is st
         else
           (let part = take i dir in
            if \<not> path_is_dir (fs_now w st) part then
              (case mkdir_ignoring_exists w part st of
                 (Inl err, st1) \<Rightarrow> (Inl err, st1)
               | (Inr u, st1) \<Rightarrow> mkdir_p_loop w dir is st1)
            else mkdir_p_loop w dir is st))
      else mkdir_p_loop w dir is st)"

definition mkdir_p :: "world \<Rightarrow> string \<Rightarrow> mstate \<Rightarrow> (error + unit) \<times> mstate" where
  "mkdir_p w dir st =
     (if length dir = 0 then (Inl InvalidArgument, st)
      else if path_is_dir (fs_now w st) dir then (Inr (), st)
      else
        (case mkdir_p_loop w dir [0 ..< length dir] st of
           (Inl err, st1) \<Rightarrow> (Inl err, st1)
         | (Inr u, st1) \<Rightarrow> mkdir_ignoring_exists w dir st1))"

definition set_selcon :: "world \<Rightarrow> string \<Rightarrow> string \<Rightarrow> mstate \<Rightarrow> (error + unit) \<times> mstate" where
  "set_selcon w path con st =
     (if length path = 0 \<or> length con = 0 then
        (Inr (), emit (Log LOG_DEBUG ''set_selcon: skip null args'') st)
      else
        sys_call w (Lsetxattr path SELINUX_XATTR con)
          (emit (Log LOG_DEBUG ''set_selcon({s}, {s})'') st))"

text \<open>
  \<^verbatim>\<open>get_selcon\<close>: the attribute is read twice, for its size and for its value; both
  reads see the same system, so the sizes agree.
\<close>

definition get_selcon :: "world \<Rightarrow> string \<Rightarrow> mstate \<Rightarrow> (error + string) \<times> mstate" where
  "get_selcon w path st =
     (if length path = 0 then (Inl InvalidArgument, st)
      else
        (case fs_lgetxattr (fs_now w st) path SELINUX_XATTR of
           None \<Rightarrow> (Inl ReadError, emit (Log LOG_WARN ''getcon {s}: {s}'') st)
         | Some v \<Rightarrow>
             (let size = length v; actual = length v in
              if actual \<noteq> size then (Inl Unexpected, st)
              else (Inr v, emit (Log LOG_DEBUG ''get_selcon({s}) -> {s}'') st))))"

definition copy_selcon :: "world \<Rightarrow> string \<Rightarrow> string \<Rightarrow> mstate \<Rightarrow> (error + unit) \<times> mstate" where
  "copy_selcon w src dst st =
     (if length src = 0 \<or> length dst = 0 then
        (Inl InvalidArgument, emit (Log LOG_DEBUG ''copy_selcon: skip null args'') st)
      else
        (case get_selcon w src (emit (Log LOG_DEBUG ''copy_selcon({s} -> {s})'') st) of
           (Inl err, st1) \<Rightarrow> (Inl err, st1)
         | (Inr con, st1) \<Rightarrow> set_selcon w dst con st1))"

section \<open>The mount applier (\<^verbatim>\<open>magic_mount.zig\<close>)\<close>

definition add_nodes_mounted :: "mstate \<Rightarrow> mstate" where
  "add_nodes_mounted st =
     st\<lparr>ms_ctx := (ms_ctx st)\<lparr>stats := (stats (ms_ctx st))
          \<lparr>nodes_mounted := nodes_mounted (stats (ms_ctx st)) + 1\<rparr>\<rparr>\<rparr>"

definition add_nodes_whiteout :: "mstate \<Rightarrow> mstate" where
  "add_nodes_whiteout st =
     st\<lparr>ms_ctx := (ms_ctx st)\<lparr>stats := (stats (ms_ctx st))
          \<lparr>nodes_whiteout := nodes_whiteout (stats (ms_ctx st)) + 1\<rparr>\<rparr>\<rparr>"

definition add_nodes_fail :: "mstate \<Rightarrow> mstate" where
  "add_nodes_fail st =
     st\<lparr>ms_ctx := (ms_ctx st)\<lparr>stats := (stats (ms_ctx st))
          \<lparr>nodes_fail := nodes_fail (stats (ms_ctx st)) + 1\<rparr>\<rparr>\<rparr>"

text \<open>\<^verbatim>\<open>ksu_send_unmountable\<close> (\<^verbatim>\<open>ksu.zig\<close>): one request to the kernel module; the
  callers drop its result.\<close>

definition ksu_send_unmountable :: "world \<Rightarrow> string \<Rightarrow> mstate \<Rightarrow> (error + unit) \<times> mstate" where
  "ksu_send_unmountable w mntpoint st = sys_call w (Ksu_send_unmountable mntpoint) st"

text \<open>\<^verbatim>\<open>mm_clone_symlink\<close>: the link target is read into a buffer of \<open>PATH_MAX\<close>
  bytes; the result of \<^verbatim>\<open>copy_selcon\<close> is dropped.\<close>

definition mm_clone_symlink :: "world \<Rightarrow> string \<Rightarrow> string \<Rightarrow> mstate \<Rightarrow> (error + unit) \<times> mstate" where
  "mm_clone_symlink w src dst st =
     (case fs_readlink (fs_now w st) src of
        None \<Rightarrow> (Inl ReadError, st)
      | Some t \<Rightarrow>
          (case sys_call w (Symlink (take PATH_MAX t) dst) st of
             (Inl err, st1) \<Rightarrow> (Inl err, st1)
           | (Inr u, st1) \<Rightarrow> (Inr (), snd (copy_selcon w src dst st1))))"

lemma path_join_empty_name: "path_join base [] = Inr p \<Longrightarrow> p = base"
  by (auto simp: path_join_def split: if_splits)

text \<open>
  \<^verbatim>\<open>mm_mirror_entry\<close>, with the loop over the entries of a mirrored directory as
  \<open>mm_mirror_entries\<close>; its flag says whether the iteration fails after the entries
  (\<^verbatim>\<open>try iter.next()\<close>). A failing \<^verbatim>\<open>path_join\<close> or \<^verbatim>\<open>lstat\<close> returns without an
  error. As in the scan, an empty entry name is passed over.
\<close>

function mm_mirror_entry ::
    "world \<Rightarrow> string \<Rightarrow> string \<Rightarrow> string \<Rightarrow> mstate \<Rightarrow> (error + unit) \<times> mstate"
  and mm_mirror_entries ::
    "world \<Rightarrow> string \<Rightarrow> string \<Rightarrow> string list \<Rightarrow> bool \<Rightarrow> mstate
      \<Rightarrow> (error + unit) \<times> mstate"
where
  "mm_mirror_entry w path work name st =
     (case path_join path name of
        Inl e \<Rightarrow> (Inr (), st)
      | Inr src \<Rightarrow>
          (case path_join work name of
             Inl e \<Rightarrow> (Inr (), st)
           | Inr dst \<Rightarrow>
               (case fs_lstat (fs_now w st) src of
                  None \<Rightarrow> (Inr (), st)
                | Some s \<Rightarrow>
                    if st_kind s = S_IFREG then
                      (case sys_call w (Open_create dst) st of
                         (Inl err, st1) \<Rightarrow> (Inl err, st1)
                       | (Inr u, st1) \<Rightarrow> sys_call w (Mount_bind src dst) st1)
                    else if st_kind s = S_IFDIR then
                      (case sys_call w (Mkdir dst) st of
                         (r, st1) \<Rightarrow>
                           if (case r of Inl err \<Rightarrow> err \<noteq> OsError EEXIST | Inr u \<Rightarrow> False)
                           then (Inl DirectoryCreationFailed, st1)
                           else
                             (let st2 = snd (sys_call w (Chmod dst) st1);
                                  st3 = snd (sys_call w (Chown dst) st2);
                                  st4 = snd (copy_selcon w src dst st3)
                              in case fs_iterate (fs_now w st4) src of
                                   None \<Rightarrow> (Inl ReadError, st4)
                                 | Some (es, iter_fails) \<Rightarrow>
                                     mm_mirror_entries w src dst es iter_fails st4))
                    else if st_kind s = S_IFLNK then mm_clone_symlink w src dst st
                    else (Inr (), st))))"
| "mm_mirror_entries w src dst [] iter_fails st =
     (if iter_fails then (Inl ReadError, st) else (Inr (), st))"
| "mm_mirror_entries w src dst (e # es) iter_fails st =
     (if e = ''.'' \<or> e = ''..'' \<or> e = [] then mm_mirror_entries w src dst es iter_fails st
      else
        (case mm_mirror_entry w src dst e st of
           (Inl err, st1) \<Rightarrow> (Inl err, st1)
         | (Inr u, st1) \<Rightarrow> mm_mirror_entries w src dst es iter_fails st1))"
  by pat_completeness auto
termination
  by (relation "inv_image (less_than <*lex*> less_than <*lex*> less_than)
        (\<lambda>x. case x of
           Inl (w, path, work, name, st) \<Rightarrow>
             (PATH_MAX - length path, if name = [] then 3 else (1::nat), 0::nat)
         | Inr (w, src, dst, es, iter_fails, st) \<Rightarrow>
             (PATH_MAX - length src, 2, length es))")
     (auto dest: path_join_longer path_join_empty_name)

text \<open>\<^verbatim>\<open>std.mem.lastIndexOfScalar\<close>: the index of the last occurrence.\<close>

fun lastIndexOfScalar :: "string \<Rightarrow> char \<Rightarrow> nat option" where
  "lastIndexOfScalar [] c = None"
| "lastIndexOfScalar (x # xs) c =
     (case lastIndexOfScalar xs c of
        Some i \<Rightarrow> Some (Suc i)
      | None \<Rightarrow> if x = c then Some 0 else None)"

text \<open>
  \<^verbatim>\<open>std.mem.containsAtLeast(u8, target, 0, needle, 1)\<close> as the code calls it: the
  needle occurs in the haystack at least once.
\<close>

fun containsAtLeast :: "string \<Rightarrow> string \<Rightarrow> bool" where
  "containsAtLeast [] needle = (needle = [])"
| "containsAtLeast (c # cs) needle =
     (take (length needle) (c # cs) = needle \<or> containsAtLeast cs needle)"

text \<open>\<^verbatim>\<open>mm_apply_regular_file\<close>. A work path without a slash returns at once,
  without an error.\<close>

definition mm_apply_regular_file ::
  "world \<Rightarrow> string \<Rightarrow> string \<Rightarrow> Node \<Rightarrow> bool \<Rightarrow> mstate \<Rightarrow> (error + unit) \<times> mstate" where
  "mm_apply_regular_file w path wpath node has_tmpfs st =
     (let target = (if has_tmpfs then wpath else path) in
      case (if has_tmpfs then
              (case lastIndexOfScalar wpath (CHR ''/'') of
                 None \<Rightarrow> None
               | Some last_slash \<Rightarrow>
                   Some (case mkdir_p w (take last_slash wpath) st of
                           (Inl err, st1) \<Rightarrow> (Inl err, st1)
                         | (Inr u, st1) \<Rightarrow> sys_call w (Open_create wpath) st1))
            else Some (Inr (), st)) of
        None \<Rightarrow> (Inr (), st)
      | Some (Inl err, st2) \<Rightarrow> (Inl err, st2)
      | Some (Inr u, st2) \<Rightarrow>
          (case n_module_path node of
             None \<Rightarrow> (Inl InvalidArgument, st2)
           | Some mp \<Rightarrow>
               (case sys_call w (Mount_bind mp target) st2 of
                  (Inl err, st3) \<Rightarrow> (Inl err, st3)
                | (Inr u, st3) \<Rightarrow>
                    (let st4 =
                           (if \<not> containsAtLeast target ''.magic_mount/workdir/'' then
                              (if enable_unmountable (ms_ctx st3)
                               then snd (ksu_send_unmountable w path st3) else st3)
                            else st3);
                         st5 = snd (sys_call w (Mount_remount_ro target) st4)
                     in (Inr (), add_nodes_mounted st5)))))"

definition mm_apply_symlink ::
  "world \<Rightarrow> string \<Rightarrow> string \<Rightarrow> Node \<Rightarrow> mstate \<Rightarrow> (error + unit) \<times> mstate" where
  "mm_apply_symlink w path wpath node st =
     (case n_module_path node of
        None \<Rightarrow> (Inl InvalidArgument, st)
      | Some mp \<Rightarrow>
          (case mm_clone_symlink w mp wpath st of
             (Inl err, st1) \<Rightarrow> (Inl err, st1)
           | (Inr u, st1) \<Rightarrow> (Inr (), add_nodes_mounted st1)))"

text \<open>
  The applier sets \<^verbatim>\<open>skip\<close> and \<^verbatim>\<open>done\<close> on the children of the directory it is
  applying, and reads them only while it applies that directory. The model keeps the two
  flags of the children in two lists beside the node, in the order of the children,
  starting from the fields of the nodes.

  \<^verbatim>\<open>mm_check_need_tmpfs\<close>: a failing \<^verbatim>\<open>path_join\<close> goes on with the next child, and
  so does a failing \<^verbatim>\<open>lstat\<close> (the \<^verbatim>\<open>continue\<close> of its handler). The result is the
  answer and the \<^verbatim>\<open>skip\<close> flags.
\<close>

fun mm_check_need_tmpfs_loop ::
  "fsys \<Rightarrow> string option \<Rightarrow> string \<Rightarrow> Node list \<Rightarrow> nat \<Rightarrow> bool list \<Rightarrow> bool \<times> bool list" where
  "mm_check_need_tmpfs_loop fs mp path [] i sk = (False, sk)"
| "mm_check_need_tmpfs_loop fs mp path (child # cs) i sk =
     (case path_join path (n_name child) of
        Inl e \<Rightarrow> mm_check_need_tmpfs_loop fs mp path cs (Suc i) sk
      | Inr rp \<Rightarrow>
          (case (if n_type child = NFT_SYMLINK then Some True
                 else if n_type child = NFT_WHITEOUT then Some (path_exists fs rp)
                 else (case fs_lstat fs rp of
                         None \<Rightarrow> None
                       | Some s \<Rightarrow>
                           (let rt = node_type_from_stat s
                            in Some (rt \<noteq> n_type child \<or> rt = NFT_SYMLINK)))) of
             None \<Rightarrow> mm_check_need_tmpfs_loop fs mp path cs (Suc i) sk
           | Some need \<Rightarrow>
               if need \<and> mp = None then
                 mm_check_need_tmpfs_loop fs mp path cs (Suc i) (sk[i := True])
               else if need then (True, sk)
               else mm_check_need_tmpfs_loop fs mp path cs (Suc i) sk))"

definition mm_check_need_tmpfs :: "fsys \<Rightarrow> Node \<Rightarrow> string \<Rightarrow> bool \<times> bool list" where
  "mm_check_need_tmpfs fs node path =
     mm_check_need_tmpfs_loop fs (n_module_path node) path (n_children node) 0
       (map n_skip (n_children node))"

text \<open>
  The first two statements of the directory case of \<^verbatim>\<open>mm_apply_node_recursive\<close>:
  \<^verbatim>\<open>create_tmp\<close> is set for a replace directory with a module path outside a tmpfs,
  and otherwise, outside a tmpfs, by \<^verbatim>\<open>mm_check_need_tmpfs\<close>. The result is
  \<^verbatim>\<open>create_tmp\<close> and the \<^verbatim>\<open>skip\<close> flags of the children.
\<close>

definition mm_decide_create_tmp :: "fsys \<Rightarrow> Node \<Rightarrow> string \<Rightarrow> bool \<Rightarrow> bool \<times> bool list" where
  "mm_decide_create_tmp fs node path has_tmpfs =
     (let create_tmp = (\<not> has_tmpfs \<and> n_replace node \<and> n_module_path node \<noteq> None) in
      if \<not> has_tmpfs \<and> \<not> create_tmp then mm_check_need_tmpfs fs node path
      else (create_tmp, map n_skip (n_children node)))"

text \<open>
  \<^verbatim>\<open>mm_setup_dir_tmpfs\<close>: when \<^verbatim>\<open>stat\<close> of the live path fails, the module path is
  only probed; mode, owner and context are copied from the live path alone.
\<close>

definition mm_setup_dir_tmpfs ::
  "world \<Rightarrow> string \<Rightarrow> string \<Rightarrow> Node \<Rightarrow> mstate \<Rightarrow> (error + unit) \<times> mstate" where
  "mm_setup_dir_tmpfs w path wpath node st =
     (case mkdir_p w wpath st of
        (Inl err, st1) \<Rightarrow> (Inl err, st1)
      | (Inr u, st1) \<Rightarrow>
          (case fs_stat (fs_now w st1) path of
             None \<Rightarrow>
               (case n_module_path node of
                  None \<Rightarrow> (Inl ReadError, st1)
                | Some mp \<Rightarrow>
                    (case fs_stat (fs_now w st1) mp of
                       None \<Rightarrow> (Inl ReadError, st1)
                     | Some s \<Rightarrow> (Inr (), st1)))
           | Some s \<Rightarrow>
               (let st2 = snd (sys_call w (Chmod wpath) st1);
                    st3 = snd (sys_call w (Chown wpath) st2);
                    st4 = snd (copy_selcon w path wpath st3)
                in (Inr (), st4))))"

text \<open>
  The handler both child loops run when a child fails: the module of the child, else of
  the directory, is marked failed, and \<^verbatim>\<open>nodes_fail\<close> is incremented.
\<close>

definition child_failed :: "string option \<Rightarrow> Node \<Rightarrow> mstate \<Rightarrow> mstate" where
  "child_failed node_module_name c st =
     (let mn = (case n_module_name c of Some m \<Rightarrow> Some m | None \<Rightarrow> node_module_name);
          st1 = (case mn of
                   Some name \<Rightarrow> st\<lparr>ms_ctx := module_mark_failed (ms_ctx st) name\<rparr>
                 | None \<Rightarrow> st)
      in add_nodes_fail st1)"

text \<open>The first child of a name, with its index (\<^verbatim>\<open>node_child_find\<close> on the children
  of the directory).\<close>

fun child_index :: "Node list \<Rightarrow> string \<Rightarrow> nat \<Rightarrow> (nat \<times> Node) option" where
  "child_index [] name i = None"
| "child_index (c # cs) name i =
     (if n_name c = name then Some (i, c) else child_index cs name (Suc i))"

lemma child_index_mem: "child_index cs name i = Some (j, c) \<Longrightarrow> c \<in> set cs"
  by (induction cs name i rule: child_index.induct) (auto split: if_splits)

lemma child_size: "c \<in> set (n_children node) \<Longrightarrow> size c < size node"
  by (cases node) (auto simp: less_Suc_eq_le dest: size_list_estimation')

lemma children_size: "size_list size (n_children node) < size node"
  by (cases node) simp

text \<open>
  \<^verbatim>\<open>mm_apply_node_recursive\<close> with the two passes over the children of a directory.
  \<open>mm_process_dir_entries\<close> is the loop of \<^verbatim>\<open>mm_process_dir_children\<close> over the
  entries of the live directory; its flag says whether the iteration fails after the
  entries (\<^verbatim>\<open>try iter.next()\<close> passes that error on in either mode), and it returns
  the \<^verbatim>\<open>done\<close> flags with its result.
  \<open>mm_process_remaining_loop\<close> is the loop of \<^verbatim>\<open>mm_process_remaining_children\<close>
  over the children from index \<open>i\<close> on. A failing \<^verbatim>\<open>path_join\<close> in
  \<^verbatim>\<open>mm_apply_node_recursive\<close> returns without an error.
\<close>

function mm_apply_node_recursive ::
    "world \<Rightarrow> string \<Rightarrow> string \<Rightarrow> Node \<Rightarrow> bool \<Rightarrow> mstate \<Rightarrow> (error + unit) \<times> mstate"
  and mm_process_dir_children ::
    "world \<Rightarrow> string \<Rightarrow> string \<Rightarrow> Node \<Rightarrow> bool \<Rightarrow> bool list \<Rightarrow> bool list \<Rightarrow> mstate
      \<Rightarrow> ((error + unit) \<times> bool list) \<times> mstate"
  and mm_process_dir_entries ::
    "world \<Rightarrow> string \<Rightarrow> string \<Rightarrow> Node \<Rightarrow> bool \<Rightarrow> bool list \<Rightarrow> bool list \<Rightarrow> string list
      \<Rightarrow> bool \<Rightarrow> mstate \<Rightarrow> ((error + unit) \<times> bool list) \<times> mstate"
  and mm_process_remaining_children ::
    "world \<Rightarrow> string \<Rightarrow> string \<Rightarrow> Node \<Rightarrow> bool \<Rightarrow> bool list \<Rightarrow> bool list \<Rightarrow> mstate
      \<Rightarrow> (error + unit) \<times> mstate"
  and mm_process_remaining_loop ::
    "world \<Rightarrow> string \<Rightarrow> string \<Rightarrow> string option \<Rightarrow> bool \<Rightarrow> bool list \<Rightarrow> bool list
      \<Rightarrow> Node list \<Rightarrow> nat \<Rightarrow> mstate \<Rightarrow> (error + unit) \<times> mstate"
where
  "mm_apply_node_recursive w base wbase node has_tmpfs st =
     (case path_join base (n_name node) of
        Inl e \<Rightarrow> (Inr (), st)
      | Inr path \<Rightarrow>
          (case path_join wbase (n_name node) of
             Inl e \<Rightarrow> (Inr (), st)
           | Inr wpath \<Rightarrow>
               (case n_type node of
                  NFT_REGULAR \<Rightarrow> mm_apply_regular_file w path wpath node has_tmpfs st
                | NFT_SYMLINK \<Rightarrow> mm_apply_symlink w path wpath node st
                | NFT_WHITEOUT \<Rightarrow> (Inr (), add_nodes_whiteout st)
                | NFT_DIRECTORY \<Rightarrow>
                    (case mm_decide_create_tmp (fs_now w st) node path has_tmpfs of
                       (create_tmp, sk) \<Rightarrow>
                         (case (if has_tmpfs \<or> create_tmp
                                then mm_setup_dir_tmpfs w path wpath node st
                                else (Inr (), st)) of
                            (Inl err, st1) \<Rightarrow> (Inl err, st1)
                          | (Inr u, st1) \<Rightarrow>
                              (case (if create_tmp then sys_call w (Mount_bind wpath wpath) st1
                                     else (Inr (), st1)) of
                                 (Inl err, st2) \<Rightarrow> (Inl err, st2)
                               | (Inr u, st2) \<Rightarrow>
                                   (case mm_process_dir_children w path wpath node
                                           (has_tmpfs \<or> create_tmp) sk
                                           (map n_done (n_children node)) st2 of
                                      ((Inl err, dn), st3) \<Rightarrow> (Inl err, st3)
                                    | ((Inr u, dn), st3) \<Rightarrow>
                                        (case mm_process_remaining_children w path wpath node
                                                (has_tmpfs \<or> create_tmp) sk dn st3 of
                                           (Inl err, st4) \<Rightarrow> (Inl err, st4)
                                         | (Inr u, st4) \<Rightarrow>
                                             if create_tmp then
                                               (let st5 = snd (sys_call w
                                                            (Mount_remount_ro wpath) st4)
                                                in case sys_call w (Mount_move wpath path) st5 of
                                                     (Inl err, st6) \<Rightarrow> (Inl err, st6)
                                                   | (Inr u, st6) \<Rightarrow>
                                                       (let st7 = snd (sys_call w
                                                                    (Mount_private path) st6);
                                                            st8 =
                                                              (if enable_unmountable (ms_ctx st7)
                                                               then snd (ksu_send_unmountable w
                                                                           path st7)
                                                               else st7)
                                                        in (Inr (), add_nodes_mounted st8)))
                                             else (Inr (), add_nodes_mounted st4)))))))))"
| "mm_process_dir_children w path wpath node now_tmp sk dn st =
     (if \<not> path_exists (fs_now w st) path \<or> n_replace node then ((Inr (), dn), st)
      else
        (case fs_iterate (fs_now w st) path of
           None \<Rightarrow> if \<not> now_tmp then ((Inr (), dn), st) else ((Inl ReadError, dn), st)
         | Some (es, iter_fails) \<Rightarrow>
             mm_process_dir_entries w path wpath node now_tmp sk dn es iter_fails st))"
| "mm_process_dir_entries w path wpath node now_tmp sk dn [] iter_fails st =
     (if iter_fails then ((Inl ReadError, dn), st) else ((Inr (), dn), st))"
| "mm_process_dir_entries w path wpath node now_tmp sk dn (e # es) iter_fails st =
     (if e = ''.'' \<or> e = ''..'' then
        mm_process_dir_entries w path wpath node now_tmp sk dn es iter_fails st
      else
        (case child_index (n_children node) e 0 of
           Some (i, c) \<Rightarrow>
             if sk ! i then
               mm_process_dir_entries w path wpath node now_tmp sk (dn[i := True]) es
                 iter_fails st
             else
               (case mm_apply_node_recursive w path wpath c now_tmp st of
                  (Inl err, st1) \<Rightarrow>
                    if now_tmp then
                      ((Inl err, dn[i := True]), child_failed (n_module_name node) c st1)
                    else
                      mm_process_dir_entries w path wpath node now_tmp sk (dn[i := True]) es
                        iter_fails (child_failed (n_module_name node) c st1)
                | (Inr u, st1) \<Rightarrow>
                    mm_process_dir_entries w path wpath node now_tmp sk (dn[i := True]) es
                      iter_fails st1)
         | None \<Rightarrow>
             if now_tmp then
               mm_process_dir_entries w path wpath node now_tmp sk dn es iter_fails
                 (snd (mm_mirror_entry w path wpath e st))
             else mm_process_dir_entries w path wpath node now_tmp sk dn es iter_fails st))"
| "mm_process_remaining_children w path wpath node now_tmp sk dn st =
     mm_process_remaining_loop w path wpath (n_module_name node) now_tmp sk dn
       (n_children node) 0 st"
| "mm_process_remaining_loop w path wpath pmn now_tmp sk dn [] i st = (Inr (), st)"
| "mm_process_remaining_loop w path wpath pmn now_tmp sk dn (child # cs) i st =
     (if sk ! i \<or> dn ! i then
        mm_process_remaining_loop w path wpath pmn now_tmp sk dn cs (Suc i) st
      else
        (case mm_apply_node_recursive w path wpath child now_tmp st of
           (Inl err, st1) \<Rightarrow>
             if now_tmp then (Inl err, child_failed pmn child st1)
             else
               mm_process_remaining_loop w path wpath pmn now_tmp sk dn cs (Suc i)
                 (child_failed pmn child st1)
         | (Inr u, st1) \<Rightarrow>
             mm_process_remaining_loop w path wpath pmn now_tmp sk dn cs (Suc i) st1))"
  by pat_completeness auto
termination
  by (relation "inv_image (less_than <*lex*> less_than <*lex*> less_than)
        (\<lambda>x. case x of
           Inl (Inl (w, base, wbase, node, has_tmpfs, st)) \<Rightarrow> (size node, 3::nat, 0::nat)
         | Inl (Inr (w, path, wpath, node, now_tmp, sk, dn, st)) \<Rightarrow> (size node, 2, 0)
         | Inr (Inl (w, path, wpath, node, now_tmp, sk, dn, es, iter_fails, st)) \<Rightarrow>
             (size node, 1, length es)
         | Inr (Inr (Inl (w, path, wpath, node, now_tmp, sk, dn, st))) \<Rightarrow> (size node, 2, 0)
         | Inr (Inr (Inr (w, path, wpath, pmn, now_tmp, sk, dn, cs, i, st))) \<Rightarrow>
             (size_list size cs, 0, 0))")
     (auto dest: child_index_mem child_size simp: less_Suc_eq_le children_size)

text \<open>
  \<^verbatim>\<open>magic_mount\<close>: the result is the return code or the error it passes on, and the
  state after the run. The tree is built from the system as it is when the run starts.
\<close>

definition magic_mount :: "world \<Rightarrow> string \<Rightarrow> mstate \<Rightarrow> (error + int) \<times> mstate" where
  "magic_mount w tmp_root st =
     (case build_mount_tree (fs_now w st) (ms_ctx st) of
        (None, ctx1) \<Rightarrow> (Inr 0, st\<lparr>ms_ctx := ctx1\<rparr>)
      | (Some root, ctx1) \<Rightarrow>
          (case path_join tmp_root ''workdir'' of
             Inl e \<Rightarrow> (Inr (- 1), st\<lparr>ms_ctx := ctx1\<rparr>)
           | Inr tmp_dir \<Rightarrow>
               (case mkdir_p w tmp_dir (st\<lparr>ms_ctx := ctx1\<rparr>) of
                  (Inl err, st2) \<Rightarrow> (Inl err, st2)
                | (Inr u, st2) \<Rightarrow>
                    (case sys_call w (Mount_tmpfs (mount_source (ms_ctx st2)) tmp_dir) st2 of
                       (Inl err, st3) \<Rightarrow> (Inl err, st3)
                     | (Inr u, st3) \<Rightarrow>
                         (let st4 = snd (sys_call w (Mount_private tmp_dir) st3) in
                          case mm_apply_node_recursive w ''/'' tmp_dir root False st4 of
                            (r, st5) \<Rightarrow>
                              (let rc = (case r of Inl err \<Rightarrow> - 1 | Inr u \<Rightarrow> 0);
                                   st6 = (case r of Inl err \<Rightarrow> add_nodes_fail st5
                                          | Inr u \<Rightarrow> st5);
                                   st7 = snd (sys_call w (Umount2 tmp_dir) st6);
                                   st8 = snd (sys_call w (Rmdir tmp_dir) st7)
                               in (Inr rc, st8)))))))"

section \<open>The specification's own words, and example systems\<close>

text \<open>
  The blacklist rule as the specification words it: one leading slash is ignored, and the
  first path segment is compared in lower case.
\<close>

definition spec_lower :: "char \<Rightarrow> char" where
  "spec_lower c = (case map_of (zip ''ABCDEFGHIJKLMNOPQRSTUVWXYZ'' ''abcdefghijklmnopqrstuvwxyz'') c of Some l \<Rightarrow> l | None \<Rightarrow> c)"

definition spec_first_segment :: "string \<Rightarrow> string" where
  "spec_first_segment name =
     takeWhile (\<lambda>c. c \<noteq> CHR ''/'') (case name of [] \<Rightarrow> [] | c # cs \<Rightarrow> if c = CHR ''/'' then cs else c # cs)"

definition spec_blacklisted :: "string \<Rightarrow> bool" where
  "spec_blacklisted name = (map spec_lower (spec_first_segment name) \<in> set blacklist)"


text \<open>The first path segment after all leading slashes.\<close>

definition first_path_segment :: "string \<Rightarrow> string" where
  "first_path_segment s = takeWhile (\<lambda>c. c \<noteq> CHR ''/'') (dropWhile (\<lambda>c. c = CHR ''/'') s)"


text \<open>
  Example systems for the concrete evaluations: a table from paths to entries. A leading
  double slash names the same file as a single one, as on Linux; \<^verbatim>\<open>stat\<close> of a symlink
  fails (the examples hold no link target), no file has an extended attribute, no
  iteration over a directory fails, and every effectful call succeeds.
\<close>

datatype fentry = FReg | FDir "string list" | FLnk string | FChr nat | FFifo

definition canon_path :: "string \<Rightarrow> string" where
  "canon_path p =
     (case p of
        a # b # r \<Rightarrow> if a = CHR ''/'' \<and> b = CHR ''/'' then b # r else p
      | _ \<Rightarrow> p)"

fun stat_of_entry :: "fentry \<Rightarrow> stat" where
  "stat_of_entry FReg = \<lparr>st_kind = S_IFREG, st_rdev = 0\<rparr>"
| "stat_of_entry (FDir es) = \<lparr>st_kind = S_IFDIR, st_rdev = 0\<rparr>"
| "stat_of_entry (FLnk t) = \<lparr>st_kind = S_IFLNK, st_rdev = 0\<rparr>"
| "stat_of_entry (FChr r) = \<lparr>st_kind = S_IFCHR, st_rdev = r\<rparr>"
| "stat_of_entry FFifo = \<lparr>st_kind = S_IFIFO, st_rdev = 0\<rparr>"

definition table_fs :: "(string \<times> fentry) list \<Rightarrow> fsys" where
  "table_fs tbl =
     \<lparr> fs_lstat = (\<lambda>p. map_option stat_of_entry (map_of tbl (canon_path p))),
       fs_stat = (\<lambda>p. case map_of tbl (canon_path p) of
                          None \<Rightarrow> None
                        | Some (FLnk t) \<Rightarrow> None
                        | Some e \<Rightarrow> Some (stat_of_entry e)),
       fs_readdir = (\<lambda>p. case map_of tbl (canon_path p) of
                             Some (FDir es) \<Rightarrow> Some es
                           | _ \<Rightarrow> None),
       fs_iterate = (\<lambda>p. case map_of tbl (canon_path p) of
                             Some (FDir es) \<Rightarrow> Some (es, False)
                           | _ \<Rightarrow> None),
       fs_readlink = (\<lambda>p. case map_of tbl (canon_path p) of
                              Some (FLnk t) \<Rightarrow> Some t
                            | _ \<Rightarrow> None),
       fs_lgetxattr = (\<lambda>p n. None),
       fs_faccessat = (\<lambda>d n. map_of tbl (canon_path d @ ''/'' @ n) \<noteq> None) \<rparr>"

definition static_world :: "(string \<times> fentry) list \<Rightarrow> world" where
  "static_world tbl = \<lparr> w_fs = (\<lambda>tr. table_fs tbl), w_fail = (\<lambda>tr e. None) \<rparr>"

definition fifo_table :: "(string \<times> fentry) list" where
  "fifo_table = [(''/m'', FDir [''pipe'']), (''/m/pipe'', FFifo)]"

text \<open>The state in which a run starts: the initialised context, no event yet.\<close>

definition initial_state :: mstate where
  "initial_state = \<lparr> ms_ctx = magic_mount_init, ms_trace = [] \<rparr>"

text \<open>A symlink node that lost its module path: applying it fails at once.\<close>

definition bad_link :: Node where
  "bad_link = Node ''lnk'' NFT_SYMLINK [] None (Some ''modA'') False False False"


definition no_files :: world where
  "no_files = static_world []"

text \<open>
  The empty fleet of the specification (one module directory without \<^verbatim>\<open>system/\<close>), and
  a module whose \<^verbatim>\<open>system/\<close> holds only an empty directory.
\<close>

definition empty_fleet_table :: "(string \<times> fentry) list" where
  "empty_fleet_table =
     [(''/data/adb/modules'', FDir [''modA'']),
      (''/data/adb/modules/modA'', FDir [''module.prop'']),
      (''/data/adb/modules/modA/module.prop'', FReg)]"

definition hollow_table :: "(string \<times> fentry) list" where
  "hollow_table =
     [(''/data/adb/modules'', FDir [''modA'']),
      (''/data/adb/modules/modA'', FDir [''system'']),
      (''/data/adb/modules/modA/system'', FDir [''app'']),
      (''/data/adb/modules/modA/system/app'', FDir [])]"

text \<open>
  A system with the extra partition \<open>mi_ext\<close>: the live \<open>/system\<close> and \<open>/mi_ext\<close> are
  empty directories, and the one module ships a whiteout for \<open>/system/g\<close> and one for
  \<open>/mi_ext/f\<close>. The module root is \<open>/mods\<close>.
\<close>

definition wh_table :: "(string \<times> fentry) list" where
  "wh_table =
     [(''/'', FDir [''system'', ''mi_ext'']),
      (''/system'', FDir []),
      (''/mi_ext'', FDir []),
      (''/mods'', FDir [''A'']),
      (''/mods/A'', FDir [''system'', ''mi_ext'']),
      (''/mods/A/system'', FDir [''g'']),
      (''/mods/A/system/g'', FChr 0),
      (''/mods/A/mi_ext'', FDir [''f'']),
      (''/mods/A/mi_ext/f'', FChr 0)]"

definition mods_ctx :: MagicMount where
  "mods_ctx = magic_mount_init\<lparr>module_dir := Some ''/mods''\<rparr>"


text \<open>The regular file \<open>init.rc\<close> of a module.\<close>

definition init_rc_node :: Node where
  "init_rc_node = Node ''init.rc'' NFT_REGULAR [] (Some ''/mods/A/system/etc/init.rc'') (Some ''A'')
                    False False False"

text \<open>
  A system whose live directory \<open>/system/d\<close> lists the files \<open>a\<close>, \<open>lnk\<close> and \<open>z\<close>,
  and three directory nodes for it: one that has to build a tmpfs because of the symlink
  child, one that replaces the live directory, and one that is applied in place, with a
  regular file that lost its module path as its first child.
\<close>

definition tmp_table :: "(string \<times> fentry) list" where
  "tmp_table = [(''/system/d'', FDir [''a'', ''lnk'', ''z'']), (''/system/d/a'', FReg),
     (''/system/d/lnk'', FReg), (''/system/d/z'', FReg)]"

definition tmp_world :: world where
  "tmp_world = static_world tmp_table"

definition wh_old :: Node where
  "wh_old = Node ''old'' NFT_WHITEOUT [] (Some ''/mods/A/system/d/old'') (Some ''modA'')
              False False False"

definition file_z :: Node where
  "file_z = Node ''z'' NFT_REGULAR [] (Some ''/mods/A/system/d/z'') (Some ''modA'')
              False False False"

definition bad_file :: Node where
  "bad_file = Node ''a'' NFT_REGULAR [] None (Some ''modB'') False False False"

definition dir_needing_tmpfs :: Node where
  "dir_needing_tmpfs = Node ''d'' NFT_DIRECTORY [bad_link, file_z] (Some ''/mods/A/system/d'')
                         (Some ''modA'') False False False"

definition dir_replacing :: Node where
  "dir_replacing = Node ''d'' NFT_DIRECTORY [wh_old, bad_link, file_z]
                     (Some ''/mods/A/system/d'') (Some ''modA'') True False False"

definition dir_in_place :: Node where
  "dir_in_place = Node ''d'' NFT_DIRECTORY [bad_file, file_z] (Some ''/mods/A/system/d'')
                    (Some ''modA'') False False False"

section \<open>Path joining\<close>

text \<open>
  C8. \<^verbatim>\<open>path_join\<close> with base \<open>/\<close> and name \<open>x\<close> returns \<open>//x\<close>: the branch
  that recognises the base \<open>/\<close> asks for a separator where the base already ends with
  one, so the join of the root doubles the slash instead of giving \<open>/x\<close>.
\<close>

theorem path_join_root_doubles_slash: "path_join ''/'' ''x'' = Inr ''//x''"
  by (simp add: path_join_def PATH_MAX_def)

text \<open>The other parts of the sentence hold of the code as it is.\<close>

lemma path_join_empty_name_eq:
  "path_join base [] = (if length base > PATH_MAX - 1 then Inl NameTooLong else Inr base)"
  by (auto simp: path_join_def PATH_MAX_def)

lemma path_join_examples:
  "path_join ''/a/'' ''b'' = Inr ''/a/b''" "path_join ''/a'' ''b'' = Inr ''/a/b''"
  by (simp_all add: path_join_def PATH_MAX_def)

lemma path_join_too_long_iff:
  "path_join base name = Inl NameTooLong \<longleftrightarrow>
     PATH_MAX - 1 <
       (if name = [] then length base
        else length base
             + (if base = [] \<or> base = ''/'' \<or> last base \<noteq> CHR ''/'' then 1 else 0)
             + length name)"
proof (cases "base = []")
  case True
  then show ?thesis by (auto simp: path_join_def Let_def PATH_MAX_def)
next
  case False
  then have l: "base ! (length base - Suc 0) = last base" by (simp add: last_conv_nth)
  have o: "(length base = Suc 0 \<and> base ! 0 = CHR ''/'') \<longleftrightarrow> base = ''/''"
    by (cases base) auto
  show ?thesis
  proof (cases "base = ''/''")
    case True
    then show ?thesis by (auto simp: path_join_def Let_def PATH_MAX_def)
  next
    case ns: False
    with o have "\<not> (length base = Suc 0 \<and> base ! 0 = CHR ''/'')" by simp
    with False ns l show ?thesis by (auto simp: path_join_def Let_def PATH_MAX_def)
  qed
qed

lemma path_join_error_is_too_long: "path_join base name = Inl e \<Longrightarrow> e = NameTooLong"
  by (auto simp: path_join_def Let_def split: if_splits)

lemma path_join_result_length:
  "path_join base name = Inr r \<Longrightarrow> length r \<le> PATH_MAX - 1"
  by (auto simp: path_join_def Let_def PATH_MAX_def split: if_splits)

section \<open>Extra-partition blacklist\<close>

lemma skip_slashes_eq: "skip_slashes s = dropWhile (\<lambda>c. c = CHR ''/'') s"
  by (induction s) auto

lemma copy_segment_eq: "copy_segment s i = take (15 - i) (takeWhile (\<lambda>c. c \<noteq> CHR ''/'') s)"
proof (induction s arbitrary: i)
  case Nil
  show ?case by simp
next
  case (Cons c cs)
  show ?case
  proof (cases "c \<noteq> CHR ''/'' \<and> i + 1 < 16")
    case True
    then have "15 - i = Suc (15 - (i + 1))" by arith
    with True Cons show ?thesis by simp
  next
    case False
    then show ?thesis by auto
  qed
qed

lemma blacklist_short: "b \<in> set blacklist \<Longrightarrow> length b < 15"
  by (auto simp: blacklist_def)

lemma take15_blacklist: "take 15 x \<in> set blacklist \<longleftrightarrow> x \<in> set blacklist"
proof
  assume a: "take 15 x \<in> set blacklist"
  then have "length (take 15 x) < 15" by (rule blacklist_short)
  then have "take 15 x = x" by (simp add: min_def split: if_splits)
  with a show "x \<in> set blacklist" by simp
next
  assume a: "x \<in> set blacklist"
  then have "length x < 15" by (rule blacklist_short)
  then have "take 15 x = x" by simp
  with a show "take 15 x \<in> set blacklist" by simp
qed

lemma extra_part_blacklisted_iff:
  "extra_part_blacklisted name \<longleftrightarrow>
     takeWhile (\<lambda>c. c \<noteq> CHR ''/'') (dropWhile (\<lambda>c. c = CHR ''/'') name) \<in> set blacklist"
proof (cases "name = []")
  case True
  then show ?thesis by (simp add: extra_part_blacklisted_def blacklist_def)
next
  case False
  then show ?thesis
    by (simp add: extra_part_blacklisted_def skip_slashes_eq copy_segment_eq take15_blacklist)
qed



text \<open>
  C7, as the code has it. Registration rejects (leaves the context as it is, and logs one
  warning) exactly when the length is zero, the trimmed name is empty, or the first path
  segment of the trimmed name after all its leading slashes is, byte for byte, a member of
  the blacklist; every other name is appended, trimmed, to the extra partitions. The
  15-byte copy of \<^verbatim>\<open>extra_part_blacklisted\<close> never changes the answer.
\<close>

theorem extra_partition_register_case_sensitive:
  "(let name = str_trim (take len start);
        rejected = (len = 0 \<or> name = [] \<or> first_path_segment name \<in> set blacklist)
    in fst (extra_partition_register ctx start len) =
         (if rejected then ctx else ctx\<lparr>extra_parts := extra_parts ctx @ [name]\<rparr>)
       \<and> (rejected \<longleftrightarrow>
            (\<exists>msg. snd (extra_partition_register ctx start len) = [(LOG_WARN, msg)])))"
  by (auto simp: extra_partition_register_def Let_def extra_part_blacklisted_iff
        first_path_segment_def str_array_append_def)


text \<open>
  C7, as the claim states it, fails: \<open>Vendor\<close> is blacklisted when compared in lower
  case, and the code registers it.
\<close>

theorem extra_partition_register_counterexample:
  "spec_blacklisted ''Vendor''
   \<and> extra_parts (fst (extra_partition_register magic_mount_init ''Vendor'' 6)) = [''Vendor'']"
  by code_simp


section \<open>Symlink compatibility\<close>

lemma target_len_of_take:
  "n \<le> length s \<Longrightarrow>
     take (target_len_of s n) s = rev (dropWhile (\<lambda>c. c = CHR ''/'') (rev (take n s)))
     \<and> target_len_of s n \<le> n"
proof (induction n)
  case 0
  show ?case by simp
next
  case (Suc n)
  then have n: "n < length s" by simp
  then have t: "take (Suc n) s = take n s @ [s ! n]" by (simp add: take_Suc_conv_app_nth)
  show ?case
  proof (cases "s ! n = CHR ''/''")
    case True
    with Suc n t show ?thesis by simp
  next
    case False
    with t show ?thesis by simp
  qed
qed

lemma target_len_of_full:
  "take (target_len_of s (length s)) s = rev (dropWhile (\<lambda>c. c = CHR ''/'') (rev s))"
  "target_len_of s (length s) = length (rev (dropWhile (\<lambda>c. c = CHR ''/'') (rev s)))"
proof -
  from target_len_of_take[of "length s" s]
  have a: "take (target_len_of s (length s)) s = rev (dropWhile (\<lambda>c. c = CHR ''/'') (rev s))"
    and b: "target_len_of s (length s) \<le> length s" by simp_all
  show "take (target_len_of s (length s)) s = rev (dropWhile (\<lambda>c. c = CHR ''/'') (rev s))"
    by (rule a)
  from a have "length (take (target_len_of s (length s)) s)
                 = length (rev (dropWhile (\<lambda>c. c = CHR ''/'') (rev s)))" by simp
  with b show "target_len_of s (length s) = length (rev (dropWhile (\<lambda>c. c = CHR ''/'') (rev s)))"
    by simp
qed

lemma prefix_match_iff:
  "length t = n \<Longrightarrow> take n s = t \<Longrightarrow> (strncmp_eq s e n \<and> nul_at e n) \<longleftrightarrow> t = e"
  by (auto simp: strncmp_eq_def nul_at_def)

lemma path_join_nonempty: "path_join base name = Inr r \<Longrightarrow> name \<noteq> [] \<Longrightarrow> r \<noteq> []"
  by (auto simp: path_join_def Let_def split: if_splits)


lemma is_compatible_symlink_unfold:
  "is_compatible_symlink link_target part_name ctx module_name \<longleftrightarrow>
     (let t = rev (dropWhile (\<lambda>c. c = CHR ''/'') (rev link_target)) in
      t \<noteq> [] \<and>
      (t = take (PATH_MAX - 1) (''../'' @ part_name)
       \<or> (\<exists>md mn tmp. module_dir ctx = Some md \<and> module_name = Some mn
              \<and> path_join md mn = Inr tmp \<and> path_join tmp part_name = Inr t)))"
proof -
  define t where "t = rev (dropWhile (\<lambda>c. c = CHR ''/'') (rev link_target))"
  have tk: "take (target_len_of link_target (length link_target)) link_target = t"
    and tl: "target_len_of link_target (length link_target) = length t"
    unfolding t_def by (rule target_len_of_full)+
  have m: "(strncmp_eq link_target e (length t) \<and> nul_at e (length t)) \<longleftrightarrow> t = e" for e
    using prefix_match_iff[of t "length t" link_target e] tk tl by simp
  show ?thesis
    unfolding is_compatible_symlink_def Let_def t_def[symmetric] tl
    by (cases "module_dir ctx"; cases "module_name"; cases "t = []";
        simp add: m split: sum.splits; blast?)
qed


text \<open>
  C4. For a partition name that is not empty and that \<^verbatim>\<open>snprintf\<close> does not cut
  (both hold of every directory entry name), \<^verbatim>\<open>is_compatible_symlink\<close> is true if and
  only if the link target without its trailing slashes equals \<open>../P\<close> or equals the
  path joined from the module directory, the module name and \<open>P\<close>. For \<open>vendor\<close> it
  accepts \<open>../vendor\<close> and \<open>/data/adb/modules/m/vendor\<close> (for a module name \<open>m\<close>
  that is a directory entry name) and rejects \<open>/vendor_alt\<close> and \<open>../vendor_alt\<close>.
\<close>

theorem is_compatible_symlink_iff:
  assumes "part_name \<noteq> []" and "length part_name + 3 < PATH_MAX"
  shows "(is_compatible_symlink link_target part_name ctx module_name \<longleftrightarrow>
           (let target = rev (dropWhile (\<lambda>c. c = CHR ''/'') (rev link_target)) in
            target = ''../'' @ part_name
            \<or> (\<exists>md mn tmp. module_dir ctx = Some md \<and> module_name = Some mn
                  \<and> path_join md mn = Inr tmp \<and> path_join tmp part_name = Inr target)))
       \<and> is_compatible_symlink ''../vendor'' ''vendor'' ctx module_name
       \<and> (module_dir ctx = Some ''/data/adb/modules'' \<and> m \<noteq> [] \<and> CHR ''/'' \<notin> set m
            \<and> length m \<le> 255
          \<longrightarrow> is_compatible_symlink (''/data/adb/modules/'' @ m @ ''/vendor'') ''vendor'' ctx (Some m))
       \<and> \<not> is_compatible_symlink ''/vendor_alt'' ''vendor'' ctx module_name
       \<and> \<not> is_compatible_symlink ''../vendor_alt'' ''vendor'' ctx module_name"
proof -
  have er: "take (PATH_MAX - 1) (''../'' @ part_name) = ''../'' @ part_name"
    by (rule take_all) (use assms(2) in simp)
  have ne: "path_join tmp part_name = Inr t \<Longrightarrow> t \<noteq> []" for tmp t
    using assms(1) by (rule path_join_nonempty[rotated])
  have general: "is_compatible_symlink link_target part_name ctx module_name \<longleftrightarrow>
           (let target = rev (dropWhile (\<lambda>c. c = CHR ''/'') (rev link_target)) in
            target = ''../'' @ part_name
            \<or> (\<exists>md mn tmp. module_dir ctx = Some md \<and> module_name = Some mn
                  \<and> path_join md mn = Inr tmp \<and> path_join tmp part_name = Inr target))"
  proof -
    define t where "t = rev (dropWhile (\<lambda>c. c = CHR ''/'') (rev link_target))"
    define B where "B \<longleftrightarrow> (\<exists>md mn tmp. module_dir ctx = Some md \<and> module_name = Some mn
                  \<and> path_join md mn = Inr tmp \<and> path_join tmp part_name = Inr t)"
    have u: "is_compatible_symlink link_target part_name ctx module_name \<longleftrightarrow>
               t \<noteq> [] \<and> (t = ''../'' @ part_name \<or> B)"
      unfolding is_compatible_symlink_unfold er Let_def t_def B_def ..
    have b: "B \<Longrightarrow> t \<noteq> []" unfolding B_def using ne by blast
    have a: "t = ''../'' @ part_name \<Longrightarrow> t \<noteq> []" by simp
    from u a b have "is_compatible_symlink link_target part_name ctx module_name \<longleftrightarrow>
               (t = ''../'' @ part_name \<or> B)" by blast
    then show ?thesis unfolding Let_def t_def B_def .
  qed
  have ev: "take (PATH_MAX - 1) (''../'' @ ''vendor'') = ''../vendor''"
    by (simp add: PATH_MAX_def)
  have ends: "path_join tmp ''vendor'' = Inr t \<Longrightarrow> last t = CHR ''r''" for tmp t
    by (auto simp: path_join_def Let_def split: if_splits)
  have acc1: "is_compatible_symlink ''../vendor'' ''vendor'' ctx module_name"
    unfolding is_compatible_symlink_unfold ev Let_def by simp
  have rej1: "\<not> is_compatible_symlink ''/vendor_alt'' ''vendor'' ctx module_name"
    unfolding is_compatible_symlink_unfold ev Let_def by (auto dest: ends)
  have rej2: "\<not> is_compatible_symlink ''../vendor_alt'' ''vendor'' ctx module_name"
    unfolding is_compatible_symlink_unfold ev Let_def by (auto dest: ends)
  have acc2: "is_compatible_symlink (''/data/adb/modules/'' @ m @ ''/vendor'') ''vendor'' ctx (Some m)"
    if h: "module_dir ctx = Some ''/data/adb/modules''" "m \<noteq> []" "CHR ''/'' \<notin> set m"
          "length m \<le> 255"
  proof -
    have j1: "path_join ''/data/adb/modules'' m = Inr (''/data/adb/modules/'' @ m)"
      using h(2,4) by (simp add: path_join_def Let_def PATH_MAX_def)
    have lm: "last m \<noteq> CHR ''/''" using h(2,3) last_in_set by metis
    have j2: "path_join (''/data/adb/modules/'' @ m) ''vendor''
                = Inr (''/data/adb/modules/'' @ m @ ''/vendor'')"
      using h(2,4) lm by (simp add: path_join_def Let_def PATH_MAX_def last_conv_nth nth_append)
    have st: "rev (dropWhile (\<lambda>c. c = CHR ''/'') (rev (''/data/adb/modules/'' @ m @ ''/vendor'')))
                = ''/data/adb/modules/'' @ m @ ''/vendor''"
      by simp
    show ?thesis
      unfolding is_compatible_symlink_unfold Let_def st using h(1) j1 j2 by auto
  qed
  from general acc1 acc2 rej1 rej2 show ?thesis by blast
qed

theorem is_compatible_symlink_iff_witness:
  "(''vendor'' \<noteq> [] \<and> length ''vendor'' + 3 < PATH_MAX)
   \<and> is_compatible_symlink ''../vendor//'' ''vendor'' magic_mount_init (Some ''modA'')
   \<and> is_compatible_symlink ''/data/adb/modules/modA/vendor'' ''vendor'' magic_mount_init (Some ''modA'')
   \<and> \<not> is_compatible_symlink ''/vendor_alt'' ''vendor'' magic_mount_init (Some ''modA'')"
proof -
  have h1: "''vendor'' \<noteq> []" by simp
  have h2: "length ''vendor'' + 3 < PATH_MAX" by (simp add: PATH_MAX_def)
  note t = is_compatible_symlink_iff[OF h1 h2, of _ magic_mount_init "Some ''modA''" "''modA''"]
  have a: "is_compatible_symlink ''../vendor//'' ''vendor'' magic_mount_init (Some ''modA'')"
    using t[of "''../vendor//''"] by (simp add: Let_def)
  have b: "is_compatible_symlink ''/data/adb/modules/modA/vendor'' ''vendor'' magic_mount_init (Some ''modA'')"
    using t[of "[]"] by (simp add: magic_mount_init_def DEFAULT_MODULE_DIR_def)
  have c: "\<not> is_compatible_symlink ''/vendor_alt'' ''vendor'' magic_mount_init (Some ''modA'')"
    using t[of "[]"] by blast
  from h1 h2 a b c show ?thesis by blast
qed

section \<open>Unsupported file types\<close>

text \<open>
  C10. When \<^verbatim>\<open>lstat\<close> reports a type that is none of regular file, directory, symlink
  or character device, \<^verbatim>\<open>node_create_from_fs\<close> returns no node and leaves
  \<^verbatim>\<open>nodes_total\<close> (the whole context) as it is, although \<^verbatim>\<open>node_type_from_stat\<close>
  would classify the entry as a whiteout; the scan of the directory that holds the entry
  goes on as if the entry were not there.
\<close>

theorem node_create_from_fs_unsupported:
  assumes "fs_lstat fs path = Some s"
    and "st_kind s \<notin> {S_IFREG, S_IFDIR, S_IFLNK, S_IFCHR}"
  shows "node_create_from_fs fs ctx name path module_name = (None, ctx)
         \<and> node_type_from_stat s = NFT_WHITEOUT
         \<and> (d_name \<notin> {''.'', ''..'', []} \<and> path_join dir d_name = Inr path
              \<and> node_child_find self d_name = None
             \<longrightarrow> node_scan_entries fs ctx self dir module_name any (d_name # es)
                   = node_scan_entries fs ctx self dir module_name any es)"
proof -
  have c: "node_create_from_fs fs ctx name path module_name = (None, ctx)" for name
    using assms by (simp add: node_create_from_fs_def)
  have t: "node_type_from_stat s = NFT_WHITEOUT"
    using assms(2) by (simp add: node_type_from_stat_def)
  have e: "node_scan_entries fs ctx self dir module_name any (d_name # es)
             = node_scan_entries fs ctx self dir module_name any es"
    if "d_name \<notin> {''.'', ''..'', []}" "path_join dir d_name = Inr path"
       "node_child_find self d_name = None"
    using that c[of d_name] by simp
  from c t e show ?thesis by blast
qed

theorem node_create_from_fs_unsupported_witness:
  "fs_lstat (table_fs fifo_table) ''/m/pipe'' = Some \<lparr>st_kind = S_IFIFO, st_rdev = 0\<rparr>
   \<and> st_kind \<lparr>st_kind = S_IFIFO, st_rdev = 0\<rparr> \<notin> {S_IFREG, S_IFDIR, S_IFLNK, S_IFCHR}
   \<and> node_create_from_fs (table_fs fifo_table) magic_mount_init ''pipe'' ''/m/pipe'' (Some ''m'')
       = (None, magic_mount_init)
   \<and> node_scan_dir (table_fs fifo_table) magic_mount_init (node_new [] NFT_DIRECTORY) ''/m'' (Some ''m'')
       = (Some (node_new [] NFT_DIRECTORY, False), magic_mount_init)"
proof -
  have h1: "fs_lstat (table_fs fifo_table) ''/m/pipe'' = Some \<lparr>st_kind = S_IFIFO, st_rdev = 0\<rparr>"
    by code_simp
  have h2: "st_kind \<lparr>st_kind = S_IFIFO, st_rdev = 0\<rparr> \<notin> {S_IFREG, S_IFDIR, S_IFLNK, S_IFCHR}"
    by simp
  note t = node_create_from_fs_unsupported[OF h1 h2, of magic_mount_init _ "Some ''m''"
              "''pipe''" "''/m''" "node_new [] NFT_DIRECTORY" False "[]"]
  have j: "path_join ''/m'' ''pipe'' = Inr ''/m/pipe''" by code_simp
  have f: "node_child_find (node_new [] NFT_DIRECTORY) ''pipe'' = None" by code_simp
  have r: "fs_readdir (table_fs fifo_table) ''/m'' = Some [''pipe'']" by code_simp
  have a: "node_create_from_fs (table_fs fifo_table) magic_mount_init ''pipe'' ''/m/pipe'' (Some ''m'')
       = (None, magic_mount_init)" using t by blast
  have "node_scan_entries (table_fs fifo_table) magic_mount_init (node_new [] NFT_DIRECTORY) ''/m''
          (Some ''m'') False [''pipe'']
        = node_scan_entries (table_fs fifo_table) magic_mount_init (node_new [] NFT_DIRECTORY) ''/m''
          (Some ''m'') False []"
    using t j f by simp
  then have b: "node_scan_dir (table_fs fifo_table) magic_mount_init (node_new [] NFT_DIRECTORY) ''/m'' (Some ''m'')
       = (Some (node_new [] NFT_DIRECTORY, False), magic_mount_init)"
    using r by simp
  from h1 h2 a b show ?thesis by blast
qed


section \<open>SELinux helpers with empty arguments\<close>

text \<open>
  C9, as the code has it. \<^verbatim>\<open>set_selcon\<close> with an empty path or label writes no
  attribute, logs at debug level and returns without an error. \<^verbatim>\<open>get_selcon\<close> with an
  empty path reads nothing, logs nothing and returns the error \<open>InvalidArgument\<close>.
  \<^verbatim>\<open>copy_selcon\<close> with an empty source or destination touches no attribute and logs
  at debug level.
\<close>

theorem selinux_empty_arguments:
  "(path = [] \<or> con = [] \<longrightarrow>
      set_selcon w path con st = (Inr (), emit (Log LOG_DEBUG ''set_selcon: skip null args'') st))
   \<and> get_selcon w [] st = (Inl InvalidArgument, st)
   \<and> (src = [] \<or> dst = [] \<longrightarrow>
        snd (copy_selcon w src dst st) = emit (Log LOG_DEBUG ''copy_selcon: skip null args'') st)"
  by (simp add: set_selcon_def get_selcon_def copy_selcon_def)

theorem selinux_empty_arguments_witness:
  "set_selcon (static_world []) [] ''u:object_r:system_file:s0'' initial_state
     = (Inr (), emit (Log LOG_DEBUG ''set_selcon: skip null args'') initial_state)
   \<and> get_selcon (static_world []) [] initial_state = (Inl InvalidArgument, initial_state)
   \<and> snd (copy_selcon (static_world []) [] ''/x'' initial_state)
       = emit (Log LOG_DEBUG ''copy_selcon: skip null args'') initial_state"
  using selinux_empty_arguments[of "[]" "''u:object_r:system_file:s0''" "static_world []"
          initial_state "[]" "''/x''"]
  by simp


text \<open>
  C9, as the claim states it, fails: with an empty path \<^verbatim>\<open>get_selcon\<close> returns an
  error, and so does \<^verbatim>\<open>copy_selcon\<close> with an empty source.
\<close>

theorem selinux_empty_arguments_counterexample:
  "fst (get_selcon (static_world []) [] initial_state) = Inl InvalidArgument
   \<and> fst (copy_selcon (static_world []) [] ''/x'' initial_state) = Inl InvalidArgument"
  by (simp add: get_selcon_def copy_selcon_def)

section \<open>Errors of the children of a directory\<close>

lemma remaining_absorbs:
  "fst (mm_process_remaining_loop w path wpath pmn False sk dn cs i st) = Inr ()"
proof (induction cs arbitrary: i st)
  case Nil
  show ?case by simp
next
  case (Cons c cs)
  show ?case
  proof (cases "sk ! i \<or> dn ! i")
    case True
    then show ?thesis using Cons.IH by simp
  next
    case False
    obtain r st1 where a: "mm_apply_node_recursive w path wpath c False st = (r, st1)"
      by (cases "mm_apply_node_recursive w path wpath c False st")
    show ?thesis
      using False a Cons.IH by (cases r) simp_all
  qed
qed

lemma dir_entries_absorb:
  "fst (fst (mm_process_dir_entries w path wpath node False sk dn es itf st))
     = (if itf then Inl ReadError else Inr ())"
proof (induction es arbitrary: dn st)
  case Nil
  show ?case by simp
next
  case (Cons e es)
  show ?case
  proof (cases "e = ''.'' \<or> e = ''..''")
    case True
    then show ?thesis using Cons.IH by auto
  next
    case dots: False
    show ?thesis
    proof (cases "child_index (n_children node) e 0")
      case None
      with dots show ?thesis using Cons.IH by simp
    next
      case (Some p)
      obtain j c where p: "p = (j, c)" by (cases p)
      obtain r st1 where a: "mm_apply_node_recursive w path wpath c False st = (r, st1)"
        by (cases "mm_apply_node_recursive w path wpath c False st")
      show ?thesis
        using dots Some p a Cons.IH
        by (cases r; cases "sk ! j") (simp_all del: mm_apply_node_recursive.simps)
    qed
  qed
qed

lemma dir_entries_append:
  "mm_process_dir_entries w path wpath node now_tmp sk dn es1 False st = ((Inr (), dn'), st')
   \<Longrightarrow> mm_process_dir_entries w path wpath node now_tmp sk dn (es1 @ es2) itf st
       = mm_process_dir_entries w path wpath node now_tmp sk dn' es2 itf st'"
proof (induction es1 arbitrary: dn st)
  case Nil
  then show ?case by simp
next
  case (Cons e es)
  show ?case
  proof (cases "e = ''.'' \<or> e = ''..''")
    case True
    then show ?thesis using Cons by auto
  next
    case dots: False
    show ?thesis
    proof (cases "child_index (n_children node) e 0")
      case None
      with dots show ?thesis
        using Cons by (cases now_tmp) (simp_all del: mm_mirror_entry.simps)
    next
      case (Some p)
      obtain j c where p: "p = (j, c)" by (cases p)
      obtain r st1 where a: "mm_apply_node_recursive w path wpath c now_tmp st = (r, st1)"
        by (cases "mm_apply_node_recursive w path wpath c now_tmp st")
      show ?thesis
        using dots Some p a Cons
        by (cases r; cases "sk ! j"; cases now_tmp)
           (simp_all del: mm_apply_node_recursive.simps)
    qed
  qed
qed

lemma remaining_loop_append:
  "mm_process_remaining_loop w path wpath pmn now_tmp sk dn cs1 i st = (Inr (), st')
   \<Longrightarrow> mm_process_remaining_loop w path wpath pmn now_tmp sk dn (cs1 @ cs2) i st
       = mm_process_remaining_loop w path wpath pmn now_tmp sk dn cs2 (i + length cs1) st'"
proof (induction cs1 arbitrary: i st)
  case Nil
  then show ?case by simp
next
  case (Cons c cs)
  show ?case
  proof (cases "sk ! i \<or> dn ! i")
    case True
    then show ?thesis using Cons by simp
  next
    case False
    obtain r st1 where a: "mm_apply_node_recursive w path wpath c now_tmp st = (r, st1)"
      by (cases "mm_apply_node_recursive w path wpath c now_tmp st")
    show ?thesis
      using False a Cons
      by (cases r; cases now_tmp) (simp_all del: mm_apply_node_recursive.simps)
  qed
qed

lemma child_failed_effect:
  "nodes_fail (stats (ms_ctx (child_failed pmn child st1))) = nodes_fail (stats (ms_ctx st1)) + 1"
  "ms_trace (child_failed pmn child st1) = ms_trace st1"
  "(case n_module_name child of Some m \<Rightarrow> Some m | None \<Rightarrow> pmn) = Some name
     \<Longrightarrow> name \<in> set (failed_modules (ms_ctx (child_failed pmn child st1)))"
  by (auto simp: child_failed_def add_nodes_fail_def module_mark_failed_def Let_def
        str_array_append_def split: option.splits)

lemma apply_directory_tmp_first_pass:
  assumes "n_type dir = NFT_DIRECTORY"
    and "path_join base (n_name dir) = Inr path"
    and "path_join wbase (n_name dir) = Inr wpath"
    and "mm_decide_create_tmp (fs_now w s0) dir path has_tmpfs = (create_tmp, sk0)"
    and "has_tmpfs \<or> create_tmp"
    and "mm_setup_dir_tmpfs w path wpath dir s0 = (Inr (), s1)"
    and "(if create_tmp then sys_call w (Mount_bind wpath wpath) s1 else (Inr (), s1))
           = (Inr (), s2)"
    and "mm_process_dir_children w path wpath dir True sk0 (map n_done (n_children dir)) s2
           = ((Inl err, dn1), s3)"
  shows "mm_apply_node_recursive w base wbase dir has_tmpfs s0 = (Inl err, s3)"
  using assms
  by (subst mm_apply_node_recursive.simps)
     (simp del: mm_apply_node_recursive.simps mm_process_dir_children.simps
        mm_process_remaining_children.simps)

lemma apply_directory_tmp_second_pass:
  assumes "n_type dir = NFT_DIRECTORY"
    and "path_join base (n_name dir) = Inr path"
    and "path_join wbase (n_name dir) = Inr wpath"
    and "mm_decide_create_tmp (fs_now w s0) dir path has_tmpfs = (create_tmp, sk0)"
    and "has_tmpfs \<or> create_tmp"
    and "mm_setup_dir_tmpfs w path wpath dir s0 = (Inr (), s1)"
    and "(if create_tmp then sys_call w (Mount_bind wpath wpath) s1 else (Inr (), s1))
           = (Inr (), s2)"
    and "mm_process_dir_children w path wpath dir True sk0 (map n_done (n_children dir)) s2
           = ((Inr (), dn1), s3)"
    and "mm_process_remaining_children w path wpath dir True sk0 dn1 s3 = (Inl err, s4)"
  shows "mm_apply_node_recursive w base wbase dir has_tmpfs s0 = (Inl err, s4)"
  using assms
  by (subst mm_apply_node_recursive.simps)
     (simp del: mm_apply_node_recursive.simps mm_process_dir_children.simps
        mm_process_remaining_children.simps)

lemma apply_directory_no_tmp:
  assumes "n_type dir = NFT_DIRECTORY"
    and "path_join base (n_name dir) = Inr path"
    and "path_join wbase (n_name dir) = Inr wpath"
    and "mm_decide_create_tmp (fs_now w s0) dir path False = (False, sk0)"
    and "\<forall>es. fs_iterate (fs_now w s0) path \<noteq> Some (es, True)"
  shows "fst (mm_apply_node_recursive w base wbase dir False s0) = Inr ()"
proof -
  obtain r1 dn1 s3 where a:
    "mm_process_dir_children w path wpath dir False sk0 (map n_done (n_children dir)) s0
       = ((r1, dn1), s3)"
    by (metis prod.collapse)
  have "fst (fst (mm_process_dir_children w path wpath dir False sk0
                    (map n_done (n_children dir)) s0)) = Inr ()"
    using assms(5) by (auto simp: dir_entries_absorb split: option.splits)
  with a have r1: "r1 = Inr ()" by simp
  obtain r2 s4 where b:
    "mm_process_remaining_children w path wpath dir False sk0 dn1 s3 = (r2, s4)"
    by (metis prod.collapse)
  have "fst (mm_process_remaining_children w path wpath dir False sk0 dn1 s3) = Inr ()"
    by (simp add: remaining_absorbs)
  with b have r2: "r2 = Inr ()" by simp
  show ?thesis
    using assms(1-4) a b r1 r2
    by (subst mm_apply_node_recursive.simps)
       (simp del: mm_apply_node_recursive.simps mm_process_dir_children.simps
          mm_process_remaining_children.simps)
qed

text \<open>
  C1. Let applying a child raise an error. In either pass over the children (the loop over
  the entries of the live directory, and the loop over the remaining children), when the
  directory is in tmpfs-building mode the loop returns that error at once, so no further
  child is applied; when it is not, the loop goes on with the next child. In both modes
  \<^verbatim>\<open>nodes_fail\<close> is incremented and the module of the child, or else of the directory,
  is marked failed, and nothing else happens to the system. Outside tmpfs-building mode
  the result of a pass does not depend on the children: the second pass never returns an
  error, and the first one only the error of the iteration over the live directory.
  \<^verbatim>\<open>mm_process_remaining_children\<close> is its loop over all the children, and
  \<^verbatim>\<open>mm_process_dir_children\<close> is its loop over the entries that the iteration yields.

  For a directory in tmpfs-building mode, whether it is inside a tmpfs already or creates
  the tmpfs itself: when the entries before the one of the failing child were processed
  without an error in the first pass, or the first pass succeeded and the children before
  the failing one were processed without an error in the second pass, the result of
  \<^verbatim>\<open>mm_apply_node_recursive\<close> for the directory is the error of the child, in the state
  that the handler of the child leaves. So the error reaches the caller, no further child
  is applied, the tmpfs is not moved into place, and the directory is not counted as
  mounted. A directory that is applied in place succeeds whatever its children return,
  unless the iteration over the live directory fails.
\<close>

theorem child_error_handling:
  assumes "mm_apply_node_recursive w path wpath child now_tmp st = (Inl err, st1)"
  shows
   "(\<not> sk ! i \<and> \<not> dn ! i \<longrightarrow>
      mm_process_remaining_loop w path wpath pmn now_tmp sk dn (child # cs) i st =
        (if now_tmp then (Inl err, child_failed pmn child st1)
         else mm_process_remaining_loop w path wpath pmn now_tmp sk dn cs (Suc i)
                (child_failed pmn child st1)))
    \<and> (e \<noteq> ''.'' \<and> e \<noteq> ''..'' \<and> child_index (n_children node) e 0 = Some (j, child) \<and> \<not> sk ! j \<longrightarrow>
      mm_process_dir_entries w path wpath node now_tmp sk dn (e # es) itf st =
        (if now_tmp then ((Inl err, dn[j := True]), child_failed (n_module_name node) child st1)
         else mm_process_dir_entries w path wpath node now_tmp sk (dn[j := True]) es itf
                (child_failed (n_module_name node) child st1)))
    \<and> nodes_fail (stats (ms_ctx (child_failed pmn child st1))) = nodes_fail (stats (ms_ctx st1)) + 1
    \<and> ms_trace (child_failed pmn child st1) = ms_trace st1
    \<and> (\<forall>name. (case n_module_name child of Some m \<Rightarrow> Some m | None \<Rightarrow> pmn) = Some name
          \<longrightarrow> name \<in> set (failed_modules (ms_ctx (child_failed pmn child st1))))
    \<and> fst (mm_process_remaining_loop w path wpath pmn False sk dn cs i st) = Inr ()
    \<and> fst (fst (mm_process_dir_entries w path wpath node False sk dn es itf st))
        = (if itf then Inl ReadError else Inr ())
    \<and> mm_process_remaining_children w path wpath node now_tmp sk dn st
        = mm_process_remaining_loop w path wpath (n_module_name node) now_tmp sk dn
            (n_children node) 0 st
    \<and> (path_exists (fs_now w st) path \<and> \<not> n_replace node
          \<and> fs_iterate (fs_now w st) path = Some (es, itf)
        \<longrightarrow> mm_process_dir_children w path wpath node now_tmp sk dn st
            = mm_process_dir_entries w path wpath node now_tmp sk dn es itf st)
    \<and> (now_tmp \<and> n_type dir = NFT_DIRECTORY
          \<and> path_join base (n_name dir) = Inr path \<and> path_join wbase (n_name dir) = Inr wpath
          \<and> mm_decide_create_tmp (fs_now w s0) dir path has_tmpfs = (create_tmp, sk0)
          \<and> (has_tmpfs \<or> create_tmp)
          \<and> mm_setup_dir_tmpfs w path wpath dir s0 = (Inr (), s1)
          \<and> (if create_tmp then sys_call w (Mount_bind wpath wpath) s1 else (Inr (), s1))
              = (Inr (), s2)
          \<and> path_exists (fs_now w s2) path \<and> \<not> n_replace dir
          \<and> fs_iterate (fs_now w s2) path = Some (es1 @ e # es2, itf)
          \<and> mm_process_dir_entries w path wpath dir True sk0 (map n_done (n_children dir))
                es1 False s2 = ((Inr (), dn1), st)
          \<and> e \<noteq> ''.'' \<and> e \<noteq> ''..'' \<and> child_index (n_children dir) e 0 = Some (j, child)
          \<and> \<not> sk0 ! j
        \<longrightarrow> mm_apply_node_recursive w base wbase dir has_tmpfs s0
              = (Inl err, child_failed (n_module_name dir) child st1))
    \<and> (now_tmp \<and> n_type dir = NFT_DIRECTORY
          \<and> path_join base (n_name dir) = Inr path \<and> path_join wbase (n_name dir) = Inr wpath
          \<and> mm_decide_create_tmp (fs_now w s0) dir path has_tmpfs = (create_tmp, sk0)
          \<and> (has_tmpfs \<or> create_tmp)
          \<and> mm_setup_dir_tmpfs w path wpath dir s0 = (Inr (), s1)
          \<and> (if create_tmp then sys_call w (Mount_bind wpath wpath) s1 else (Inr (), s1))
              = (Inr (), s2)
          \<and> mm_process_dir_children w path wpath dir True sk0 (map n_done (n_children dir)) s2
              = ((Inr (), dn1), s3)
          \<and> n_children dir = cs1 @ child # cs2
          \<and> mm_process_remaining_loop w path wpath (n_module_name dir) True sk0 dn1 cs1 0 s3
              = (Inr (), st)
          \<and> \<not> sk0 ! length cs1 \<and> \<not> dn1 ! length cs1
        \<longrightarrow> mm_apply_node_recursive w base wbase dir has_tmpfs s0
              = (Inl err, child_failed (n_module_name dir) child st1))
    \<and> (n_type dir = NFT_DIRECTORY
          \<and> path_join base (n_name dir) = Inr path \<and> path_join wbase (n_name dir) = Inr wpath
          \<and> mm_decide_create_tmp (fs_now w s0) dir path False = (False, sk0)
          \<and> (\<forall>xs. fs_iterate (fs_now w s0) path \<noteq> Some (xs, True))
        \<longrightarrow> fst (mm_apply_node_recursive w base wbase dir False s0) = Inr ())"
proof -
  have c1: "\<not> sk ! i \<and> \<not> dn ! i \<longrightarrow>
      mm_process_remaining_loop w path wpath pmn now_tmp sk dn (child # cs) i st =
        (if now_tmp then (Inl err, child_failed pmn child st1)
         else mm_process_remaining_loop w path wpath pmn now_tmp sk dn cs (Suc i)
                (child_failed pmn child st1))"
    using assms by (simp del: mm_apply_node_recursive.simps)
  have c2: "e \<noteq> ''.'' \<and> e \<noteq> ''..'' \<and> child_index (n_children node) e 0 = Some (j, child) \<and> \<not> sk ! j \<longrightarrow>
      mm_process_dir_entries w path wpath node now_tmp sk dn (e # es) itf st =
        (if now_tmp then ((Inl err, dn[j := True]), child_failed (n_module_name node) child st1)
         else mm_process_dir_entries w path wpath node now_tmp sk (dn[j := True]) es itf
                (child_failed (n_module_name node) child st1))"
    using assms by (simp del: mm_apply_node_recursive.simps)
  have c3: "nodes_fail (stats (ms_ctx (child_failed pmn child st1)))
              = nodes_fail (stats (ms_ctx st1)) + 1"
    by (rule child_failed_effect)
  have c4: "ms_trace (child_failed pmn child st1) = ms_trace st1"
    by (rule child_failed_effect)
  have c5: "\<forall>name. (case n_module_name child of Some m \<Rightarrow> Some m | None \<Rightarrow> pmn) = Some name
          \<longrightarrow> name \<in> set (failed_modules (ms_ctx (child_failed pmn child st1)))"
    using child_failed_effect(3) by blast
  have c6: "fst (mm_process_remaining_loop w path wpath pmn False sk dn cs i st) = Inr ()"
    by (rule remaining_absorbs)
  have c7: "fst (fst (mm_process_dir_entries w path wpath node False sk dn es itf st))
        = (if itf then Inl ReadError else Inr ())"
    by (rule dir_entries_absorb)
  have c8: "mm_process_remaining_children w path wpath node now_tmp sk dn st
        = mm_process_remaining_loop w path wpath (n_module_name node) now_tmp sk dn
            (n_children node) 0 st"
    by simp
  have c9: "path_exists (fs_now w st) path \<and> \<not> n_replace node
          \<and> fs_iterate (fs_now w st) path = Some (es, itf)
        \<longrightarrow> mm_process_dir_children w path wpath node now_tmp sk dn st
            = mm_process_dir_entries w path wpath node now_tmp sk dn es itf st"
    by simp
  have c10: "now_tmp \<and> n_type dir = NFT_DIRECTORY
          \<and> path_join base (n_name dir) = Inr path \<and> path_join wbase (n_name dir) = Inr wpath
          \<and> mm_decide_create_tmp (fs_now w s0) dir path has_tmpfs = (create_tmp, sk0)
          \<and> (has_tmpfs \<or> create_tmp)
          \<and> mm_setup_dir_tmpfs w path wpath dir s0 = (Inr (), s1)
          \<and> (if create_tmp then sys_call w (Mount_bind wpath wpath) s1 else (Inr (), s1))
              = (Inr (), s2)
          \<and> path_exists (fs_now w s2) path \<and> \<not> n_replace dir
          \<and> fs_iterate (fs_now w s2) path = Some (es1 @ e # es2, itf)
          \<and> mm_process_dir_entries w path wpath dir True sk0 (map n_done (n_children dir))
                es1 False s2 = ((Inr (), dn1), st)
          \<and> e \<noteq> ''.'' \<and> e \<noteq> ''..'' \<and> child_index (n_children dir) e 0 = Some (j, child)
          \<and> \<not> sk0 ! j
        \<longrightarrow> mm_apply_node_recursive w base wbase dir has_tmpfs s0
              = (Inl err, child_failed (n_module_name dir) child st1)"
  proof (intro impI, elim conjE)
    assume h: "now_tmp" "n_type dir = NFT_DIRECTORY"
      "path_join base (n_name dir) = Inr path" "path_join wbase (n_name dir) = Inr wpath"
      "mm_decide_create_tmp (fs_now w s0) dir path has_tmpfs = (create_tmp, sk0)"
      "has_tmpfs \<or> create_tmp"
      "mm_setup_dir_tmpfs w path wpath dir s0 = (Inr (), s1)"
      "(if create_tmp then sys_call w (Mount_bind wpath wpath) s1 else (Inr (), s1))
         = (Inr (), s2)"
    assume d: "path_exists (fs_now w s2) path" "\<not> n_replace dir"
      "fs_iterate (fs_now w s2) path = Some (es1 @ e # es2, itf)"
    assume p: "mm_process_dir_entries w path wpath dir True sk0 (map n_done (n_children dir))
                es1 False s2 = ((Inr (), dn1), st)"
    assume f: "e \<noteq> ''.''" "e \<noteq> ''..''" "child_index (n_children dir) e 0 = Some (j, child)"
      "\<not> sk0 ! j"
    have a: "mm_apply_node_recursive w path wpath child True st = (Inl err, st1)"
      using assms h(1) by (simp del: mm_apply_node_recursive.simps)
    have "mm_process_dir_entries w path wpath dir True sk0 dn1 (e # es2) itf st
            = ((Inl err, dn1[j := True]), child_failed (n_module_name dir) child st1)"
      using a f by (simp del: mm_apply_node_recursive.simps)
    then have "mm_process_dir_entries w path wpath dir True sk0 (map n_done (n_children dir))
                 (es1 @ e # es2) itf s2
            = ((Inl err, dn1[j := True]), child_failed (n_module_name dir) child st1)"
      using dir_entries_append[OF p] by simp
    then have "mm_process_dir_children w path wpath dir True sk0 (map n_done (n_children dir)) s2
            = ((Inl err, dn1[j := True]), child_failed (n_module_name dir) child st1)"
      using d by simp
    then show "mm_apply_node_recursive w base wbase dir has_tmpfs s0
              = (Inl err, child_failed (n_module_name dir) child st1)"
      using h by (intro apply_directory_tmp_first_pass)
  qed
  have c11: "now_tmp \<and> n_type dir = NFT_DIRECTORY
          \<and> path_join base (n_name dir) = Inr path \<and> path_join wbase (n_name dir) = Inr wpath
          \<and> mm_decide_create_tmp (fs_now w s0) dir path has_tmpfs = (create_tmp, sk0)
          \<and> (has_tmpfs \<or> create_tmp)
          \<and> mm_setup_dir_tmpfs w path wpath dir s0 = (Inr (), s1)
          \<and> (if create_tmp then sys_call w (Mount_bind wpath wpath) s1 else (Inr (), s1))
              = (Inr (), s2)
          \<and> mm_process_dir_children w path wpath dir True sk0 (map n_done (n_children dir)) s2
              = ((Inr (), dn1), s3)
          \<and> n_children dir = cs1 @ child # cs2
          \<and> mm_process_remaining_loop w path wpath (n_module_name dir) True sk0 dn1 cs1 0 s3
              = (Inr (), st)
          \<and> \<not> sk0 ! length cs1 \<and> \<not> dn1 ! length cs1
        \<longrightarrow> mm_apply_node_recursive w base wbase dir has_tmpfs s0
              = (Inl err, child_failed (n_module_name dir) child st1)"
  proof (intro impI, elim conjE)
    assume h: "now_tmp" "n_type dir = NFT_DIRECTORY"
      "path_join base (n_name dir) = Inr path" "path_join wbase (n_name dir) = Inr wpath"
      "mm_decide_create_tmp (fs_now w s0) dir path has_tmpfs = (create_tmp, sk0)"
      "has_tmpfs \<or> create_tmp"
      "mm_setup_dir_tmpfs w path wpath dir s0 = (Inr (), s1)"
      "(if create_tmp then sys_call w (Mount_bind wpath wpath) s1 else (Inr (), s1))
         = (Inr (), s2)"
    assume d: "mm_process_dir_children w path wpath dir True sk0 (map n_done (n_children dir)) s2
              = ((Inr (), dn1), s3)"
    assume p: "n_children dir = cs1 @ child # cs2"
      "mm_process_remaining_loop w path wpath (n_module_name dir) True sk0 dn1 cs1 0 s3
              = (Inr (), st)"
    assume f: "\<not> sk0 ! length cs1" "\<not> dn1 ! length cs1"
    have a: "mm_apply_node_recursive w path wpath child True st = (Inl err, st1)"
      using assms h(1) by (simp del: mm_apply_node_recursive.simps)
    have "mm_process_remaining_loop w path wpath (n_module_name dir) True sk0 dn1 (child # cs2)
            (length cs1) st = (Inl err, child_failed (n_module_name dir) child st1)"
      using a f by (simp del: mm_apply_node_recursive.simps)
    then have "mm_process_remaining_loop w path wpath (n_module_name dir) True sk0 dn1
                 (cs1 @ child # cs2) 0 s3
                = (Inl err, child_failed (n_module_name dir) child st1)"
      using remaining_loop_append[OF p(2)] by simp
    then have "mm_process_remaining_children w path wpath dir True sk0 dn1 s3
                = (Inl err, child_failed (n_module_name dir) child st1)"
      using p(1) by simp
    then show "mm_apply_node_recursive w base wbase dir has_tmpfs s0
              = (Inl err, child_failed (n_module_name dir) child st1)"
      using h d by (intro apply_directory_tmp_second_pass)
  qed
  have c12: "n_type dir = NFT_DIRECTORY
          \<and> path_join base (n_name dir) = Inr path \<and> path_join wbase (n_name dir) = Inr wpath
          \<and> mm_decide_create_tmp (fs_now w s0) dir path False = (False, sk0)
          \<and> (\<forall>xs. fs_iterate (fs_now w s0) path \<noteq> Some (xs, True))
        \<longrightarrow> fst (mm_apply_node_recursive w base wbase dir False s0) = Inr ()"
    using apply_directory_no_tmp by blast
  from c1 c2 c3 c4 c5 c6 c7 c8 c9 c10 c11 c12 show ?thesis by (intro conjI) assumption+
qed

theorem child_error_handling_witness:
  "fst (mm_apply_node_recursive tmp_world ''/system'' ''/w/system'' dir_needing_tmpfs False
          initial_state) = Inl InvalidArgument
   \<and> ms_trace (snd (mm_apply_node_recursive tmp_world ''/system'' ''/w/system''
                      dir_needing_tmpfs False initial_state))
       = [Mkdir ''/w'', Mkdir ''/w/system'', Mkdir ''/w/system/d'', Chmod ''/w/system/d'',
          Chown ''/w/system/d'', Log LOG_DEBUG ''copy_selcon({s} -> {s})'',
          Log LOG_WARN ''getcon {s}: {s}'', Mount_bind ''/w/system/d'' ''/w/system/d'',
          Open_create ''/w/system/d/a'', Mount_bind ''/system/d/a'' ''/w/system/d/a'']
   \<and> fst (mm_apply_node_recursive tmp_world ''/system'' ''/w/system'' dir_replacing False
            initial_state) = Inl InvalidArgument
   \<and> ms_trace (snd (mm_apply_node_recursive tmp_world ''/system'' ''/w/system''
                      dir_replacing False initial_state))
       = [Mkdir ''/w'', Mkdir ''/w/system'', Mkdir ''/w/system/d'', Chmod ''/w/system/d'',
          Chown ''/w/system/d'', Log LOG_DEBUG ''copy_selcon({s} -> {s})'',
          Log LOG_WARN ''getcon {s}: {s}'', Mount_bind ''/w/system/d'' ''/w/system/d'']
   \<and> mm_process_dir_entries tmp_world ''/system/d'' ''/w/system/d'' dir_in_place False
        [False, False] [False, False] [''a'', ''lnk'', ''z''] False initial_state
       = mm_process_dir_entries tmp_world ''/system/d'' ''/w/system/d'' dir_in_place False
           [False, False] [True, False] [''lnk'', ''z''] False
           (child_failed (Some ''modA'') bad_file initial_state)
   \<and> nodes_fail (stats (ms_ctx (child_failed (Some ''modA'') bad_file initial_state))) = 1
   \<and> failed_modules (ms_ctx (child_failed (Some ''modA'') bad_file initial_state)) = [''modB'']
   \<and> fst (mm_apply_node_recursive tmp_world ''/system'' ''/w/system'' dir_in_place False
            initial_state) = Inr ()"
proof -
  let ?p = "''/system/d''" and ?wp = "''/w/system/d''"
  have link: "mm_apply_node_recursive tmp_world ?p ?wp bad_link True s = (Inl InvalidArgument, s)"
    for s
    by (simp add: bad_link_def mm_apply_symlink_def path_join_def PATH_MAX_def)
  let ?s1 = "snd (mm_setup_dir_tmpfs tmp_world ?p ?wp dir_needing_tmpfs initial_state)"
  let ?s2 = "snd (sys_call tmp_world (Mount_bind ?wp ?wp) ?s1)"
  let ?st = "snd (mm_process_dir_entries tmp_world ?p ?wp dir_needing_tmpfs True [False, False]
                    [False, False] [''a''] False ?s2)"
  have a1: "n_type dir_needing_tmpfs = NFT_DIRECTORY" by code_simp
  have a2: "path_join ''/system'' (n_name dir_needing_tmpfs) = Inr ?p" by code_simp
  have a3: "path_join ''/w/system'' (n_name dir_needing_tmpfs) = Inr ?wp" by code_simp
  have a4: "mm_decide_create_tmp (fs_now tmp_world initial_state) dir_needing_tmpfs ?p False
              = (True, [False, False])" by code_simp
  have a5: "False \<or> True" by simp
  have a6: "mm_setup_dir_tmpfs tmp_world ?p ?wp dir_needing_tmpfs initial_state = (Inr (), ?s1)"
    by code_simp
  have a7: "(if True then sys_call tmp_world (Mount_bind ?wp ?wp) ?s1 else (Inr (), ?s1))
              = (Inr (), ?s2)" by code_simp
  have a8: "path_exists (fs_now tmp_world ?s2) ?p" by code_simp
  have a9: "\<not> n_replace dir_needing_tmpfs" by code_simp
  have a10: "fs_iterate (fs_now tmp_world ?s2) ?p = Some ([''a''] @ ''lnk'' # [''z''], False)"
    by code_simp
  have a11: "mm_process_dir_entries tmp_world ?p ?wp dir_needing_tmpfs True [False, False]
               (map n_done (n_children dir_needing_tmpfs)) [''a''] False ?s2
             = ((Inr (), [False, False]), ?st)" by code_simp
  have a12: "''lnk'' \<noteq> ''.''" "''lnk'' \<noteq> ''..''" by simp_all
  have a13: "child_index (n_children dir_needing_tmpfs) ''lnk'' 0 = Some (0, bad_link)"
    by code_simp
  have a14: "\<not> [False, False] ! 0" by simp
  note t1 = child_error_handling[OF link[of ?st], where dir = dir_needing_tmpfs
              and base = "''/system''" and wbase = "''/w/system''" and ?s0.0 = initial_state
              and has_tmpfs = False and create_tmp = True and ?sk0.0 = "[False, False]"
              and ?s1.0 = ?s1 and ?s2.0 = ?s2 and ?es1.0 = "[''a'']" and e = "''lnk''"
              and ?es2.0 = "[''z'']" and itf = False and ?dn1.0 = "[False, False]" and j = 0
              and pmn = "Some ''modA''"]
  have r1: "mm_apply_node_recursive tmp_world ''/system'' ''/w/system'' dir_needing_tmpfs False
              initial_state
            = (Inl InvalidArgument, child_failed (n_module_name dir_needing_tmpfs) bad_link ?st)"
    using a1 a2 a3 a4 a5 a6 a7 a8 a9 a10 a11 a12 a13 a14
    by (intro mp[OF t1[THEN conjunct2, THEN conjunct2, THEN conjunct2, THEN conjunct2,
          THEN conjunct2, THEN conjunct2, THEN conjunct2, THEN conjunct2, THEN conjunct2,
          THEN conjunct1]] conjI TrueI)
  have n1: "n_module_name dir_needing_tmpfs = Some ''modA''" by code_simp
  have tr1: "ms_trace ?st
       = [Mkdir ''/w'', Mkdir ''/w/system'', Mkdir ''/w/system/d'', Chmod ''/w/system/d'',
          Chown ''/w/system/d'', Log LOG_DEBUG ''copy_selcon({s} -> {s})'',
          Log LOG_WARN ''getcon {s}: {s}'', Mount_bind ''/w/system/d'' ''/w/system/d'',
          Open_create ''/w/system/d/a'', Mount_bind ''/system/d/a'' ''/w/system/d/a'']"
    by code_simp
  have w1: "fst (mm_apply_node_recursive tmp_world ''/system'' ''/w/system'' dir_needing_tmpfs
                   False initial_state) = Inl InvalidArgument"
    unfolding r1 by simp
  have w2: "ms_trace (snd (mm_apply_node_recursive tmp_world ''/system'' ''/w/system''
                      dir_needing_tmpfs False initial_state))
       = [Mkdir ''/w'', Mkdir ''/w/system'', Mkdir ''/w/system/d'', Chmod ''/w/system/d'',
          Chown ''/w/system/d'', Log LOG_DEBUG ''copy_selcon({s} -> {s})'',
          Log LOG_WARN ''getcon {s}: {s}'', Mount_bind ''/w/system/d'' ''/w/system/d'',
          Open_create ''/w/system/d/a'', Mount_bind ''/system/d/a'' ''/w/system/d/a'']"
    unfolding r1 n1 snd_conv
      t1[THEN conjunct2, THEN conjunct2, THEN conjunct2, THEN conjunct1]
    by (rule tr1)
  let ?u1 = "snd (mm_setup_dir_tmpfs tmp_world ?p ?wp dir_replacing initial_state)"
  let ?u2 = "snd (sys_call tmp_world (Mount_bind ?wp ?wp) ?u1)"
  let ?ut = "snd (mm_process_remaining_loop tmp_world ?p ?wp (Some ''modA'') True
                    [False, False, False] [False, False, False] [wh_old] 0 ?u2)"
  have b1: "n_type dir_replacing = NFT_DIRECTORY" by code_simp
  have b2: "path_join ''/system'' (n_name dir_replacing) = Inr ?p" by code_simp
  have b3: "path_join ''/w/system'' (n_name dir_replacing) = Inr ?wp" by code_simp
  have b4: "mm_decide_create_tmp (fs_now tmp_world initial_state) dir_replacing ?p False
              = (True, [False, False, False])" by code_simp
  have b6: "mm_setup_dir_tmpfs tmp_world ?p ?wp dir_replacing initial_state = (Inr (), ?u1)"
    by code_simp
  have b7: "(if True then sys_call tmp_world (Mount_bind ?wp ?wp) ?u1 else (Inr (), ?u1))
              = (Inr (), ?u2)" by code_simp
  have b8: "mm_process_dir_children tmp_world ?p ?wp dir_replacing True [False, False, False]
              (map n_done (n_children dir_replacing)) ?u2
            = ((Inr (), [False, False, False]), ?u2)" by code_simp
  have b9: "n_children dir_replacing = [wh_old] @ bad_link # [file_z]" by code_simp
  have b10: "mm_process_remaining_loop tmp_world ?p ?wp (n_module_name dir_replacing) True
               [False, False, False] [False, False, False] [wh_old] 0 ?u2 = (Inr (), ?ut)"
    by code_simp
  have b11: "\<not> [False, False, False] ! length [wh_old]"
    "\<not> [False, False, False] ! length [wh_old]" by simp_all
  note t2 = child_error_handling[OF link[of ?ut], where dir = dir_replacing
              and base = "''/system''" and wbase = "''/w/system''" and ?s0.0 = initial_state
              and has_tmpfs = False and create_tmp = True and ?sk0.0 = "[False, False, False]"
              and ?s1.0 = ?u1 and ?s2.0 = ?u2 and ?s3.0 = ?u2 and ?cs1.0 = "[wh_old]"
              and ?cs2.0 = "[file_z]" and ?dn1.0 = "[False, False, False]"
              and pmn = "Some ''modA''"]
  have r2: "mm_apply_node_recursive tmp_world ''/system'' ''/w/system'' dir_replacing False
              initial_state
            = (Inl InvalidArgument, child_failed (n_module_name dir_replacing) bad_link ?ut)"
    using b1 b2 b3 b4 a5 b6 b7 b8 b9 b10 b11
    by (intro mp[OF t2[THEN conjunct2, THEN conjunct2, THEN conjunct2, THEN conjunct2,
          THEN conjunct2, THEN conjunct2, THEN conjunct2, THEN conjunct2, THEN conjunct2,
          THEN conjunct2, THEN conjunct1]] conjI TrueI)
  have n2: "n_module_name dir_replacing = Some ''modA''" by code_simp
  have tr2: "ms_trace (snd (mm_process_remaining_loop tmp_world ?p ?wp (Some ''modA'') True
                    [False, False, False] [False, False, False] [wh_old] 0 ?u2))
       = [Mkdir ''/w'', Mkdir ''/w/system'', Mkdir ''/w/system/d'', Chmod ''/w/system/d'',
          Chown ''/w/system/d'', Log LOG_DEBUG ''copy_selcon({s} -> {s})'',
          Log LOG_WARN ''getcon {s}: {s}'', Mount_bind ''/w/system/d'' ''/w/system/d'']"
    by code_simp
  have w3: "fst (mm_apply_node_recursive tmp_world ''/system'' ''/w/system'' dir_replacing
                   False initial_state) = Inl InvalidArgument"
    unfolding r2 by simp
  have w4: "ms_trace (snd (mm_apply_node_recursive tmp_world ''/system'' ''/w/system''
                      dir_replacing False initial_state))
       = [Mkdir ''/w'', Mkdir ''/w/system'', Mkdir ''/w/system/d'', Chmod ''/w/system/d'',
          Chown ''/w/system/d'', Log LOG_DEBUG ''copy_selcon({s} -> {s})'',
          Log LOG_WARN ''getcon {s}: {s}'', Mount_bind ''/w/system/d'' ''/w/system/d'']"
    unfolding r2 n2 snd_conv
      t2[THEN conjunct2, THEN conjunct2, THEN conjunct2, THEN conjunct1]
    by (rule tr2)
  have reg: "mm_apply_node_recursive tmp_world ?p ?wp bad_file False initial_state
                = (Inl InvalidArgument, initial_state)" by code_simp
  have c1: "n_type dir_in_place = NFT_DIRECTORY" by code_simp
  have c2: "path_join ''/system'' (n_name dir_in_place) = Inr ?p" by code_simp
  have c3: "path_join ''/w/system'' (n_name dir_in_place) = Inr ?wp" by code_simp
  have c4: "mm_decide_create_tmp (fs_now tmp_world initial_state) dir_in_place ?p False
              = (False, [False, False])" by code_simp
  have c5: "\<forall>xs. fs_iterate (fs_now tmp_world initial_state) ?p \<noteq> Some (xs, True)"
    by (simp add: fs_now_def tmp_world_def static_world_def table_fs_def tmp_table_def
          canon_path_def)
  have c6: "''a'' \<noteq> ''.''" "''a'' \<noteq> ''..''" by simp_all
  have c7: "child_index (n_children dir_in_place) ''a'' 0 = Some (0, bad_file)" by code_simp
  have c8: "\<not> [False, False] ! 0" by simp
  have c9: "[False, False][0 := True] = [True, False]" by simp
  have c10: "n_module_name dir_in_place = Some ''modA''" by code_simp
  have c11: "nodes_fail (stats (ms_ctx initial_state)) = 0" by code_simp
  note t3 = child_error_handling[OF reg, where dir = dir_in_place and node = dir_in_place
              and base = "''/system''" and wbase = "''/w/system''" and ?s0.0 = initial_state
              and ?sk0.0 = "[False, False]" and sk = "[False, False]" and dn = "[False, False]"
              and e = "''a''" and es = "[''lnk'', ''z'']" and itf = False and j = 0
              and pmn = "Some ''modA''"]
  have w5: "mm_process_dir_entries tmp_world ''/system/d'' ''/w/system/d'' dir_in_place False
        [False, False] [False, False] [''a'', ''lnk'', ''z''] False initial_state
       = mm_process_dir_entries tmp_world ''/system/d'' ''/w/system/d'' dir_in_place False
           [False, False] [True, False] [''lnk'', ''z''] False
           (child_failed (Some ''modA'') bad_file initial_state)"
    using mp[OF t3[THEN conjunct2, THEN conjunct1]] c6 c7 c8 c9 c10
    by (simp del: mm_process_dir_entries.simps)
  have w6: "nodes_fail (stats (ms_ctx (child_failed (Some ''modA'') bad_file initial_state))) = 1"
    using t3[THEN conjunct2, THEN conjunct2, THEN conjunct1] c11 by simp
  have w7: "failed_modules (ms_ctx (child_failed (Some ''modA'') bad_file initial_state))
              = [''modB'']" by code_simp
  have w8: "fst (mm_apply_node_recursive tmp_world ''/system'' ''/w/system'' dir_in_place False
            initial_state) = Inr ()"
    using c1 c2 c3 c4 c5
    by (intro mp[OF t3[THEN conjunct2, THEN conjunct2, THEN conjunct2, THEN conjunct2,
          THEN conjunct2, THEN conjunct2, THEN conjunct2, THEN conjunct2, THEN conjunct2,
          THEN conjunct2, THEN conjunct2]] conjI)
  from w1 w2 w3 w4 w5 w6 w7 w8 show ?thesis by (intro conjI) assumption+
qed

section \<open>No content\<close>

lemma scan_modules_no_system:
  assumes "\<forall>d \<in> set des. \<forall>mp ms. path_join mdir d = Inr mp \<longrightarrow> path_join mp ''system'' = Inr ms
             \<longrightarrow> \<not> path_is_dir fs ms"
  shows "scan_modules fs ctx system mdir any des = (None, ctx)
         \<or> scan_modules fs ctx system mdir any des = (Some (system, any), ctx)"
  using assms
proof (induction des)
  case Nil
  show ?case by simp
next
  case (Cons d des)
  then have ih: "scan_modules fs ctx system mdir any des = (None, ctx)
         \<or> scan_modules fs ctx system mdir any des = (Some (system, any), ctx)" by simp
  show ?case
  proof (cases "path_join mdir d")
    case (Inl e)
    then show ?thesis using ih by simp
  next
    case (Inr mp)
    show ?thesis
    proof (cases "path_join mp ''system''")
      case (Inl e)
      with Inr show ?thesis using ih by simp
    next
      case ms: (Inr ms)
      with Inr Cons.prems have "\<not> path_is_dir fs ms" by simp
      with Inr ms show ?thesis using ih by simp
    qed
  qed
qed


text \<open>
  C6. When the scan of the modules ends with no content (\<open>has_any\<close> is false),
  \<^verbatim>\<open>build_mount_tree\<close> returns the no-content result and \<^verbatim>\<open>magic_mount\<close> returns 0
  with not one event added: no mount operation, no call of the applier. When no directory
  of the module root has a \<^verbatim>\<open>system\<close> subdirectory, the context is returned as it
  was, so \<^verbatim>\<open>modules_total\<close> stays 0.
\<close>

theorem magic_mount_no_content:
  "(fs_readdir (fs_now w st)
        (case module_dir (ms_ctx st) of None \<Rightarrow> DEFAULT_MODULE_DIR | Some d \<Rightarrow> d) = Some des
      \<and> scan_modules (fs_now w st) (ms_ctx st) (node_new ''system'' NFT_DIRECTORY)
            (case module_dir (ms_ctx st) of None \<Rightarrow> DEFAULT_MODULE_DIR | Some d \<Rightarrow> d) False des
          = (Some (system1, False), ctx1)
     \<longrightarrow> build_mount_tree (fs_now w st) (ms_ctx st) = (None, ctx1)
         \<and> magic_mount w tmp_root st = (Inr 0, st\<lparr>ms_ctx := ctx1\<rparr>))
   \<and> ((\<forall>des d mp ms.
          fs_readdir (fs_now w st)
            (case module_dir (ms_ctx st) of None \<Rightarrow> DEFAULT_MODULE_DIR | Some d \<Rightarrow> d) = Some des
          \<longrightarrow> d \<in> set des
          \<longrightarrow> path_join (case module_dir (ms_ctx st) of None \<Rightarrow> DEFAULT_MODULE_DIR | Some d \<Rightarrow> d) d
                = Inr mp
          \<longrightarrow> path_join mp ''system'' = Inr ms
          \<longrightarrow> \<not> path_is_dir (fs_now w st) ms)
     \<longrightarrow> build_mount_tree (fs_now w st) (ms_ctx st) = (None, ms_ctx st)
         \<and> magic_mount w tmp_root st = (Inr 0, st))"
proof -
  define fs where "fs = fs_now w st"
  define mdir where "mdir = (case module_dir (ms_ctx st) of None \<Rightarrow> DEFAULT_MODULE_DIR | Some d \<Rightarrow> d)"
  have mm: "magic_mount w tmp_root st = (Inr 0, st\<lparr>ms_ctx := c\<rparr>)"
    if "build_mount_tree fs (ms_ctx st) = (None, c)" for c
    using that by (simp add: magic_mount_def fs_def)
  have a: "build_mount_tree fs (ms_ctx st) = (None, ctx1)"
    if "fs_readdir fs mdir = Some des"
       "scan_modules fs (ms_ctx st) (node_new ''system'' NFT_DIRECTORY) mdir False des
          = (Some (system1, False), ctx1)"
    using that by (simp add: build_mount_tree_def Let_def mdir_def)
  have b: "build_mount_tree fs (ms_ctx st) = (None, ms_ctx st)"
    if h: "\<forall>des d mp ms. fs_readdir fs mdir = Some des \<longrightarrow> d \<in> set des
             \<longrightarrow> path_join mdir d = Inr mp \<longrightarrow> path_join mp ''system'' = Inr ms
             \<longrightarrow> \<not> path_is_dir fs ms"
  proof (cases "fs_readdir fs mdir")
    case None
    then show ?thesis by (simp add: build_mount_tree_def Let_def mdir_def)
  next
    case (Some des)
    with h have "\<forall>d \<in> set des. \<forall>mp ms. path_join mdir d = Inr mp
                   \<longrightarrow> path_join mp ''system'' = Inr ms \<longrightarrow> \<not> path_is_dir fs ms"
      by blast
    from scan_modules_no_system[OF this, of "ms_ctx st" "node_new ''system'' NFT_DIRECTORY" False]
    show ?thesis using Some by (auto simp: build_mount_tree_def Let_def mdir_def)
  qed
  have st: "st\<lparr>ms_ctx := ms_ctx st\<rparr> = st" by simp
  from a b mm st show ?thesis unfolding fs_def mdir_def by metis
qed

theorem magic_mount_no_content_witness:
  "magic_mount (static_world empty_fleet_table) ''/dev/.magic_mount'' initial_state
     = (Inr 0, initial_state)
   \<and> modules_total (stats (ms_ctx initial_state)) = 0
   \<and> ms_trace initial_state = []
   \<and> magic_mount (static_world hollow_table) ''/dev/.magic_mount'' initial_state
     = (Inr 0, initial_state\<lparr>ms_ctx := magic_mount_init\<lparr>stats := (stats magic_mount_init)
          \<lparr>modules_total := 1, nodes_total := 1\<rparr>\<rparr>\<rparr>)"
proof -
  have md: "(case module_dir (ms_ctx initial_state) of None \<Rightarrow> DEFAULT_MODULE_DIR | Some d \<Rightarrow> d)
              = ''/data/adb/modules''" by code_simp
  have rd: "fs_readdir (fs_now (static_world empty_fleet_table) initial_state) ''/data/adb/modules''
              = Some [''modA'']" by code_simp
  have j1: "path_join ''/data/adb/modules'' ''modA'' = Inr ''/data/adb/modules/modA''"
    by code_simp
  have j2: "path_join ''/data/adb/modules/modA'' ''system'' = Inr ''/data/adb/modules/modA/system''"
    by code_simp
  have nd: "\<not> path_is_dir (fs_now (static_world empty_fleet_table) initial_state)
                ''/data/adb/modules/modA/system''" by code_simp
  have hyp: "\<forall>des d mp ms.
          fs_readdir (fs_now (static_world empty_fleet_table) initial_state)
            (case module_dir (ms_ctx initial_state) of None \<Rightarrow> DEFAULT_MODULE_DIR | Some d \<Rightarrow> d)
            = Some des
          \<longrightarrow> d \<in> set des
          \<longrightarrow> path_join (case module_dir (ms_ctx initial_state) of None \<Rightarrow> DEFAULT_MODULE_DIR
                            | Some d \<Rightarrow> d) d = Inr mp
          \<longrightarrow> path_join mp ''system'' = Inr ms
          \<longrightarrow> \<not> path_is_dir (fs_now (static_world empty_fleet_table) initial_state) ms"
    unfolding md rd using j1 j2 nd by auto
  have a: "magic_mount (static_world empty_fleet_table) ''/dev/.magic_mount'' initial_state
     = (Inr 0, initial_state)"
    using magic_mount_no_content[of "static_world empty_fleet_table" initial_state] hyp by blast
  have m0: "modules_total (stats (ms_ctx initial_state)) = 0" by code_simp
  have t0: "ms_trace initial_state = []" by code_simp
  have rd2: "fs_readdir (fs_now (static_world hollow_table) initial_state)
              (case module_dir (ms_ctx initial_state) of None \<Rightarrow> DEFAULT_MODULE_DIR | Some d \<Rightarrow> d)
              = Some [''modA'']" by code_simp
  have sc: "scan_modules (fs_now (static_world hollow_table) initial_state) (ms_ctx initial_state)
              (node_new ''system'' NFT_DIRECTORY)
              (case module_dir (ms_ctx initial_state) of None \<Rightarrow> DEFAULT_MODULE_DIR | Some d \<Rightarrow> d)
              False [''modA'']
            = (Some (Node ''system'' NFT_DIRECTORY
                       [Node ''app'' NFT_DIRECTORY [] (Some ''/data/adb/modules/modA/system/app'')
                          (Some ''modA'') False False False]
                       None None False False False, False),
               magic_mount_init\<lparr>stats := (stats magic_mount_init)
                 \<lparr>modules_total := 1, nodes_total := 1\<rparr>\<rparr>)" by code_simp
  have b: "magic_mount (static_world hollow_table) ''/dev/.magic_mount'' initial_state
     = (Inr 0, initial_state\<lparr>ms_ctx := magic_mount_init\<lparr>stats := (stats magic_mount_init)
          \<lparr>modules_total := 1, nodes_total := 1\<rparr>\<rparr>\<rparr>)"
    using magic_mount_no_content[of "static_world hollow_table" initial_state "[''modA'']"] rd2 sc
    by blast
  from a m0 t0 b show ?thesis by (intro conjI) assumption+
qed

section \<open>Statistics\<close>

text \<open>
  C2. With the extra partition \<open>mi_ext\<close> registered, a run over the example system ends
  with \<^verbatim>\<open>nodes_mounted = 3\<close> and \<^verbatim>\<open>nodes_whiteout = 2\<close> against
  \<^verbatim>\<open>nodes_total = 4\<close>: the node of the extra partition is applied and counted as
  mounted, but \<^verbatim>\<open>build_mount_tree\<close> created it with \<^verbatim>\<open>node_new\<close> and never counted it
  in \<^verbatim>\<open>nodes_total\<close>, as it does for the root and \<open>system\<close> nodes.
\<close>

theorem magic_mount_extra_partition_stats:
  "magic_mount (static_world wh_table) ''/t''
     \<lparr>ms_ctx = fst (extra_partition_register mods_ctx ''mi_ext'' 6), ms_trace = []\<rparr>
   = (Inr 0,
      \<lparr>ms_ctx = mods_ctx
         \<lparr>stats := \<lparr>modules_total = 1, nodes_total = 4, nodes_mounted = 3,
                     nodes_skipped = 0, nodes_whiteout = 2, nodes_fail = 0\<rparr>,
          extra_parts := [''mi_ext'']\<rparr>,
       ms_trace = [Mkdir ''/t'', Mkdir ''/t/workdir'', Mount_tmpfs (Some ''KSU'') ''/t/workdir'',
                   Mount_private ''/t/workdir'', Umount2 ''/t/workdir'', Rmdir ''/t/workdir'']\<rparr>)"
  by code_simp


section \<open>Names of the children\<close>

text \<open>
  C3. With \<open>mi_ext\<close> registered twice, the root of the tree \<^verbatim>\<open>build_mount_tree\<close>
  returns has two children named \<open>mi_ext\<close>: neither the registration nor the loop
  over the extra partitions looks for a node of that name, as the scan does with
  \<^verbatim>\<open>node_child_find\<close>.
\<close>

theorem build_mount_tree_duplicate_extra:
  "build_mount_tree (table_fs wh_table)
     (fst (extra_partition_register (fst (extra_partition_register mods_ctx ''mi_ext'' 6))
             ''mi_ext'' 6))
   = (Some
       (Node [] NFT_DIRECTORY
         [Node ''mi_ext'' NFT_DIRECTORY
            [Node ''f'' NFT_WHITEOUT [] (Some ''/mods/A/mi_ext/f'') (Some ''A'') False False False]
            None None False False False,
          Node ''mi_ext'' NFT_DIRECTORY
            [Node ''f'' NFT_WHITEOUT [] (Some ''/mods/A/mi_ext/f'') (Some ''A'') False False False]
            None None False False False,
          Node ''system'' NFT_DIRECTORY
            [Node ''g'' NFT_WHITEOUT [] (Some ''/mods/A/system/g'') (Some ''A'') False False False]
            None None False False False]
         None None False False False),
      mods_ctx
       \<lparr>stats := \<lparr>modules_total = 1, nodes_total = 5, nodes_mounted = 0,
                   nodes_skipped = 0, nodes_whiteout = 0, nodes_fail = 0\<rparr>,
        extra_parts := [''mi_ext'', ''mi_ext'']\<rparr>)"
  by code_simp


section \<open>Reporting a bind mount to the kernel module\<close>

text \<open>
  C5. \<^verbatim>\<open>mm_apply_regular_file\<close> decides by the text of the target path: it reports
  unless the target contains \<open>.magic_mount/workdir/\<close>. With the work directory under
  \<open>/data/tmp\<close> a bind into the workdir (\<^verbatim>\<open>has_tmpfs\<close> true) is reported, and a bind
  onto a live path that contains that text (\<^verbatim>\<open>has_tmpfs\<close> false) is not.
\<close>

theorem mm_apply_regular_file_substring_gate:
  "ms_trace (snd (mm_apply_regular_file no_files ''//system/etc/init.rc''
                    ''/data/tmp/workdir/system/etc/init.rc'' init_rc_node True initial_state))
     = [Mkdir ''/data'', Mkdir ''/data/tmp'', Mkdir ''/data/tmp/workdir'',
        Mkdir ''/data/tmp/workdir/system'', Mkdir ''/data/tmp/workdir/system/etc'',
        Open_create ''/data/tmp/workdir/system/etc/init.rc'',
        Mount_bind ''/mods/A/system/etc/init.rc'' ''/data/tmp/workdir/system/etc/init.rc'',
        Ksu_send_unmountable ''//system/etc/init.rc'',
        Mount_remount_ro ''/data/tmp/workdir/system/etc/init.rc'']
   \<and> ms_trace (snd (mm_apply_regular_file no_files ''//.magic_mount/workdir/x''
                    ''/t/workdir/.magic_mount/workdir/x'' init_rc_node False initial_state))
     = [Mount_bind ''/mods/A/system/etc/init.rc'' ''//.magic_mount/workdir/x'',
        Mount_remount_ro ''//.magic_mount/workdir/x'']"
  by code_simp


text \<open>
  On a live path without that text the report is made, with the live path, after the bind
  and before the read-only remount.
\<close>

lemma mm_apply_regular_file_live:
  assumes "n_module_path node = Some mp"
    and "w_fail w (ms_trace st) (Mount_bind mp path) = None"
    and "enable_unmountable (ms_ctx st)"
    and "\<not> containsAtLeast path ''.magic_mount/workdir/''"
  shows "fst (mm_apply_regular_file w path wpath node False st) = Inr ()
         \<and> ms_trace (snd (mm_apply_regular_file w path wpath node False st))
             = ms_trace st @ [Mount_bind mp path, Ksu_send_unmountable path, Mount_remount_ro path]"
  using assms
  by (simp add: mm_apply_regular_file_def sys_call_def ksu_send_unmountable_def emit_def
        add_nodes_mounted_def Let_def split: option.splits)

end
